theory Spec2Isabelle
  imports Main
begin

section \<open>The element builder of the Glimmer runtime (lib/vm/element-builder.ts)\<close>

text \<open>
  The builder inserts nodes into a live tree at a cursor and keeps, for every open block, a
  tracker with the block's first and last node and the resources it owns. Objects of the
  source that are shared by reference (trackers) live in an explicit store and are named by
  their address; every call the builder makes to a collaborator (tree operations, the
  environment's hooks, a destroyable's \<open>destroy\<close>) is appended to a call log, so that the
  order of effects can be stated.
\<close>

subsection \<open>Nodes, bounds, destroyables\<close>

type_synonym node = nat
type_synonym tid = nat

datatype error =
    ExpectFailed string
  | AssertFailed string
  | CallStackExceeded
  | DanglingReference
  | TypeError string

text \<open>
  A \<open>Bounds\<close> object of the source is a tracker (shared, so named by its address), the
  \<open>ConcreteBounds\<close> that \<open>insertHTMLBefore\<close> returns (parent, first, last) or the
  \<open>SingleNodeBounds\<close> that \<open>single(parent, node)\<close> returns.
\<close>

datatype bounds =
    TrackerBounds tid
  | ConcreteBounds node "node option" "node option"
  | SingleNodeBounds node node

text \<open>
  Modelled from the spec: \<open>single(parent, node)\<close> of ../bounds, absent from this file: the
  bounds of the one node.
\<close>

definition single :: "node \<Rightarrow> node \<Rightarrow> bounds" where
  "single parent n = SingleNodeBounds parent n"

text \<open>
  The field \<open>first: Option<FirstNode>\<close> holds either a \<open>First\<close> wrapper of a node
  (class \<open>First\<close>) or a bounds object; \<open>last\<close> likewise.
\<close>

datatype first_node = First node | FirstBounds bounds
datatype last_node = Last node | LastBounds bounds

text \<open>
  A \<open>Destroyable\<close> is a tracker or an object of the caller, known only by its identity.
\<close>

datatype destroyable = TrackerDestroyable tid | ExternalDestroyable nat

text \<open>
  A member of the list a block-list tracker wraps
  (\<open>LinkedListNode & Bounds & Destroyable\<close>): an object of the caller with an identity,
  whose \<open>firstNode\<close>/\<open>lastNode\<close> report the bounds it stands for. As a destroyable it is
  \<open>ExternalDestroyable (ln_id x)\<close>: one object of the source can be a member of the list and
  be handed to \<open>newDestroyable\<close> as well.
\<close>

record list_node =
  ln_id :: nat
  ln_bounds :: bounds

subsection \<open>Trackers\<close>

datatype tracker_kind = Simple | Updatable | Remote

text \<open>
  The fields of \<open>SimpleBlockTracker\<close>, which \<open>UpdatableBlockTracker\<close> and
  \<open>RemoteBlockTracker\<close> inherit: \<open>last\<close> is spelt \<open>last_t\<close> here.
  \<open>nesting\<close> is a JavaScript number that \<open>closeElement\<close> decrements without a check.
\<close>

record simple_block_tracker =
  parent :: node
  first :: "first_node option"
  last_t :: "last_node option"
  destroyables :: "destroyable list option"
  nesting :: int

datatype tracker =
    SimpleBlockTracker tracker_kind simple_block_tracker
  | BlockListTracker node "list_node list"

text \<open>\<open>new SimpleBlockTracker(parent)\<close> and its two subclasses.\<close>

definition new_tracker :: "tracker_kind \<Rightarrow> node \<Rightarrow> tracker" where
  "new_tracker k p =
     SimpleBlockTracker k
       \<lparr>parent = p, first = None, last_t = None, destroyables = None, nesting = 0\<rparr>"

text \<open>\<open>parentElement()\<close> of both classes.\<close>

fun tracker_parentElement :: "tracker \<Rightarrow> node" where
  "tracker_parentElement (SimpleBlockTracker k s) = parent s"
| "tracker_parentElement (BlockListTracker p bl) = p"

text \<open>
  \<open>SimpleBlockTracker.newNode\<close> and \<open>newBounds\<close> on the fields: both return at once unless
  \<open>nesting\<close> is 0; otherwise \<open>first\<close> is set when it is absent, and \<open>last\<close> is set.
\<close>

definition simple_newNode :: "simple_block_tracker \<Rightarrow> node \<Rightarrow> simple_block_tracker" where
  "simple_newNode s n =
     (if nesting s \<noteq> 0 then s
      else (if first s = None then s\<lparr>first := Some (First n)\<rparr> else s)
             \<lparr>last_t := Some (Last n)\<rparr>)"

definition simple_newBounds :: "simple_block_tracker \<Rightarrow> bounds \<Rightarrow> simple_block_tracker" where
  "simple_newBounds s b =
     (if nesting s \<noteq> 0 then s
      else (if first s = None then s\<lparr>first := Some (FirstBounds b)\<rparr> else s)
             \<lparr>last_t := Some (LastBounds b)\<rparr>)"

text \<open>\<open>newNode\<close> of a tracker; \<open>BlockListTracker\<close> asserts false.\<close>

fun tracker_newNode :: "tracker \<Rightarrow> node \<Rightarrow> error + tracker" where
  "tracker_newNode (SimpleBlockTracker k s) n = Inr (SimpleBlockTracker k (simple_newNode s n))"
| "tracker_newNode (BlockListTracker p bl) n =
     Inl (AssertFailed ''Cannot create a new node directly inside a block list'')"

text \<open>\<open>newBounds\<close> of a tracker; an empty method on \<open>BlockListTracker\<close>.\<close>

fun tracker_newBounds :: "tracker \<Rightarrow> bounds \<Rightarrow> tracker" where
  "tracker_newBounds (SimpleBlockTracker k s) b = SimpleBlockTracker k (simple_newBounds s b)"
| "tracker_newBounds (BlockListTracker p bl) b = BlockListTracker p bl"

text \<open>\<open>openElement\<close>: \<open>newNode(element)\<close>, then \<open>nesting++\<close>.\<close>

fun tracker_openElement :: "tracker \<Rightarrow> node \<Rightarrow> error + tracker" where
  "tracker_openElement (SimpleBlockTracker k s) e =
     Inr (SimpleBlockTracker k
            ((simple_newNode s e)\<lparr>nesting := nesting (simple_newNode s e) + 1\<rparr>))"
| "tracker_openElement (BlockListTracker p bl) e =
     Inl (AssertFailed ''Cannot openElement directly inside a block list'')"

text \<open>\<open>closeElement\<close>: \<open>nesting--\<close>.\<close>

fun tracker_closeElement :: "tracker \<Rightarrow> error + tracker" where
  "tracker_closeElement (SimpleBlockTracker k s) =
     Inr (SimpleBlockTracker k (s\<lparr>nesting := nesting s - 1\<rparr>))"
| "tracker_closeElement (BlockListTracker p bl) =
     Inl (AssertFailed ''Cannot closeElement directly inside a block list'')"

text \<open>
  \<open>newDestroyable\<close>: \<open>this.destroyables = this.destroyables || []\<close>, then \<open>push\<close>;
  an empty method on \<open>BlockListTracker\<close>.
\<close>

fun tracker_newDestroyable :: "tracker \<Rightarrow> destroyable \<Rightarrow> tracker" where
  "tracker_newDestroyable (SimpleBlockTracker k s) d =
     SimpleBlockTracker k
       (s\<lparr>destroyables :=
            Some ((case destroyables s of None \<Rightarrow> [] | Some ds \<Rightarrow> ds) @ [d])\<rparr>)"
| "tracker_newDestroyable (BlockListTracker p bl) d = BlockListTracker p bl"


subsection \<open>The tree and its operations\<close>

datatype node_data = ElementData string | TextData string | CommentData string

text \<open>
  Modelled from the spec: the tree-operations collaborator (../dom/helper), which is not part
  of this file. The tree is the ordered list of children of every node; a new node takes
  the next free identity; \<open>parseHTML\<close> stands for the collaborator's markup parser and
  gives the top-level nodes of a fragment.
\<close>

record dom_tree =
  contents :: "node \<Rightarrow> node_data option"
  children :: "node \<Rightarrow> node list"
  next_node :: node
  parseHTML :: "string \<Rightarrow> node_data list"

definition create_node :: "node_data \<Rightarrow> dom_tree \<Rightarrow> node \<times> dom_tree" where
  "create_node x d =
     (next_node d, d\<lparr>contents := (contents d)(next_node d \<mapsto> x), next_node := Suc (next_node d)\<rparr>)"

text \<open>
  Modelled from the spec: \<open>createElement(tag, parent)\<close>, \<open>createTextNode(text)\<close> and
  \<open>createComment(text)\<close> of the tree-operations collaborator: a new detached node.
\<close>

definition createElement :: "string \<Rightarrow> node \<Rightarrow> dom_tree \<Rightarrow> node \<times> dom_tree" where
  "createElement tag context d = create_node (ElementData tag) d"

definition createTextNode :: "string \<Rightarrow> dom_tree \<Rightarrow> node \<times> dom_tree" where
  "createTextNode text d = create_node (TextData text) d"

definition createComment :: "string \<Rightarrow> dom_tree \<Rightarrow> node \<times> dom_tree" where
  "createComment text d = create_node (CommentData text) d"

fun insert_before :: "node \<Rightarrow> node option \<Rightarrow> node list \<Rightarrow> node list" where
  "insert_before n None cs = cs @ [n]"
| "insert_before n (Some r) cs =
     takeWhile (\<lambda>c. c \<noteq> r) cs @ n # dropWhile (\<lambda>c. c \<noteq> r) cs"

text \<open>
  Modelled from the spec: \<open>insertBefore(parent, node, reference)\<close>: the node leaves the place it had, and becomes
  the child of \<open>parent\<close> before \<open>reference\<close>, the last child when the reference is absent.
\<close>

definition insertBefore :: "node \<Rightarrow> node \<Rightarrow> node option \<Rightarrow> dom_tree \<Rightarrow> dom_tree" where
  "insertBefore p n r d =
     d\<lparr>children := (\<lambda>q. removeAll n (children d q))
                      (p := insert_before n r (removeAll n (children d p)))\<rparr>"

fun insert_fresh :: "node \<Rightarrow> node option \<Rightarrow> node_data list \<Rightarrow> dom_tree \<Rightarrow> node list \<times> dom_tree" where
  "insert_fresh p r [] d = ([], d)"
| "insert_fresh p r (x # xs) d =
     (case create_node x d of (n, d1) \<Rightarrow>
        (case insert_fresh p r xs (insertBefore p n r d1) of (ns, d2) \<Rightarrow> (n # ns, d2)))"

text \<open>
  Modelled from the spec: \<open>insertHTMLBefore(parent, reference, markup)\<close>: the parsed nodes are spliced in before the
  reference; the result is the \<open>ConcreteBounds\<close> of the run, empty for empty markup.
\<close>

definition insertHTMLBefore :: "node \<Rightarrow> node option \<Rightarrow> string \<Rightarrow> dom_tree \<Rightarrow> bounds \<times> dom_tree" where
  "insertHTMLBefore p r html d =
     (case insert_fresh p r (parseHTML d html) d of (ns, d') \<Rightarrow>
        (ConcreteBounds p (if ns = [] then None else Some (hd ns))
                          (if ns = [] then None else Some (last ns)), d'))"

text \<open>
  Modelled from the spec: \<open>clear\<close> of ../bounds, which removes the run of siblings from the
  first node of the bounds to its last node and returns the sibling that followed the run.
  \<open>clear_from\<close> is its loop over the siblings, started at the first node.
\<close>

fun clear_from :: "node list \<Rightarrow> node option \<Rightarrow> node list \<times> node option" where
  "clear_from [] l = ([], None)"
| "clear_from (n # ns) l =
     (if Some n = l then (ns, case ns of [] \<Rightarrow> None | m # ms \<Rightarrow> Some m)
      else clear_from ns l)"

definition clear_range :: "node list \<Rightarrow> node option \<Rightarrow> node option \<Rightarrow> node list \<times> node option" where
  "clear_range cs f l =
     (case f of
        None \<Rightarrow> (cs, None)
      | Some fn \<Rightarrow>
          (case clear_from (dropWhile (\<lambda>c. c \<noteq> fn) cs) l of
             (rest, nxt) \<Rightarrow> (takeWhile (\<lambda>c. c \<noteq> fn) cs @ rest, nxt)))"

subsection \<open>The environment: store of trackers, tree, call log\<close>

datatype element_operations = SimpleElementOperations | CustomOperations nat

datatype event =
    CreateElement string node node
  | CreateTextNode string node
  | CreateComment string node
  | InsertBefore node node "node option"
  | InsertHTMLBefore node "node option" string
  | Clear node "node option" "node option"
  | Destroy destroyable
  | DidDestroy destroyable
  | AddStaticAttribute element_operations node string string
  | AddStaticAttributeNS element_operations node string string string
  | AddDynamicAttribute element_operations node string nat bool
  | AddDynamicAttributeNS element_operations node string string nat bool

record environment =
  trackers :: "tracker list"
  tree :: dom_tree
  calls :: "event list"

definition tracker_at :: "tracker list \<Rightarrow> tid \<Rightarrow> tracker option" where
  "tracker_at ts t = (if t < length ts then Some (ts ! t) else None)"

definition called :: "event list \<Rightarrow> environment \<Rightarrow> environment" where
  "called es e = e\<lparr>calls := calls e @ es\<rparr>"

subsection \<open>Reading the bounds of a tracker\<close>

text \<open>
  \<open>firstNode()\<close> is \<open>this.first && this.first.firstNode()\<close>, and \<open>first\<close> may be another
  tracker, so the call follows references through the store. The first argument bounds the
  depth of the calls: a chain deeper than the number of trackers in the store visits one of
  them twice and never ends in the source, which is the value \<open>Inl CallStackExceeded\<close>.
\<close>

fun bounds_firstNode :: "nat \<Rightarrow> tracker list \<Rightarrow> bounds \<Rightarrow> error + node option" where
  "bounds_firstNode k ts (ConcreteBounds p f l) = Inr f"
| "bounds_firstNode k ts (SingleNodeBounds p n) = Inr (Some n)"
| "bounds_firstNode 0 ts (TrackerBounds t) = Inl CallStackExceeded"
| "bounds_firstNode (Suc k) ts (TrackerBounds t) =
     (case tracker_at ts t of
        None \<Rightarrow> Inl DanglingReference
      | Some (SimpleBlockTracker kd s) \<Rightarrow>
          (case first s of
             None \<Rightarrow> Inr None
           | Some (First n) \<Rightarrow> Inr (Some n)
           | Some (FirstBounds b) \<Rightarrow> bounds_firstNode k ts b)
      | Some (BlockListTracker p bl) \<Rightarrow>
          (case bl of [] \<Rightarrow> Inr None | x # xs \<Rightarrow> bounds_firstNode k ts (ln_bounds x)))"

fun bounds_lastNode :: "nat \<Rightarrow> tracker list \<Rightarrow> bounds \<Rightarrow> error + node option" where
  "bounds_lastNode k ts (ConcreteBounds p f l) = Inr l"
| "bounds_lastNode k ts (SingleNodeBounds p n) = Inr (Some n)"
| "bounds_lastNode 0 ts (TrackerBounds t) = Inl CallStackExceeded"
| "bounds_lastNode (Suc k) ts (TrackerBounds t) =
     (case tracker_at ts t of
        None \<Rightarrow> Inl DanglingReference
      | Some (SimpleBlockTracker kd s) \<Rightarrow>
          (case last_t s of
             None \<Rightarrow> Inr None
           | Some (Last n) \<Rightarrow> Inr (Some n)
           | Some (LastBounds b) \<Rightarrow> bounds_lastNode k ts b)
      | Some (BlockListTracker p bl) \<Rightarrow>
          (if bl = [] then Inr None else bounds_lastNode k ts (ln_bounds (last bl))))"

fun bounds_parentElement :: "tracker list \<Rightarrow> bounds \<Rightarrow> error + node" where
  "bounds_parentElement ts (ConcreteBounds p f l) = Inr p"
| "bounds_parentElement ts (SingleNodeBounds p n) = Inr p"
| "bounds_parentElement ts (TrackerBounds t) =
     (case tracker_at ts t of
        None \<Rightarrow> Inl DanglingReference
      | Some tr \<Rightarrow> Inr (tracker_parentElement tr))"

definition firstNode :: "environment \<Rightarrow> bounds \<Rightarrow> error + node option" where
  "firstNode e b = bounds_firstNode (length (trackers e)) (trackers e) b"

definition lastNode :: "environment \<Rightarrow> bounds \<Rightarrow> error + node option" where
  "lastNode e b = bounds_lastNode (length (trackers e)) (trackers e) b"

text \<open>
  Modelled from the spec: \<open>clear(bounds)\<close> of ../bounds reads the parent, the first and the last node of the bounds, removes the
  run from the tree and returns the sibling after it.
\<close>

definition clear :: "bounds \<Rightarrow> environment \<Rightarrow> error + (node option \<times> environment)" where
  "clear b e =
     (case bounds_parentElement (trackers e) b of
        Inl err \<Rightarrow> Inl err
      | Inr p \<Rightarrow>
     (case firstNode e b of
        Inl err \<Rightarrow> Inl err
      | Inr f \<Rightarrow>
     (case lastNode e b of
        Inl err \<Rightarrow> Inl err
      | Inr l \<Rightarrow>
     (case clear_range (children (tree e) p) f l of
        (cs, nxt) \<Rightarrow>
          Inr (nxt, called [Clear p f l]
                      (e\<lparr>tree := (tree e)\<lparr>children := (children (tree e))(p := cs)\<rparr>\<rparr>))))))"

subsection \<open>Teardown and reset\<close>

text \<open>
  \<open>SimpleBlockTracker.destroy\<close> calls \<open>destroy\<close> on each destroyable in the order of the
  array; \<open>RemoteBlockTracker.destroy\<close> is \<open>super.destroy(); clear(this)\<close>;
  \<open>BlockListTracker.destroy\<close> calls \<open>destroy\<close> on every member of its list. Every call of a
  \<open>destroy\<close> method is logged; the \<open>destroy\<close> of a tracker then runs, that of an object of
  the caller is opaque. The first argument bounds the depth of the calls as above.
\<close>

fun destroy_tracker :: "nat \<Rightarrow> tid \<Rightarrow> environment \<Rightarrow> error + environment"
  and destroy_each :: "nat \<Rightarrow> destroyable list \<Rightarrow> environment \<Rightarrow> error + environment" where
  "destroy_tracker 0 t e = Inl CallStackExceeded"
| "destroy_tracker (Suc k) t e =
     (case tracker_at (trackers e) t of
        None \<Rightarrow> Inl DanglingReference
      | Some (SimpleBlockTracker kd s) \<Rightarrow>
          (case destroy_each k (case destroyables s of None \<Rightarrow> [] | Some ds \<Rightarrow> ds) e of
             Inl err \<Rightarrow> Inl err
           | Inr e1 \<Rightarrow>
               (if kd = Remote then
                  (case clear (TrackerBounds t) e1 of
                     Inl err \<Rightarrow> Inl err
                   | Inr (nxt, e2) \<Rightarrow> Inr e2)
                else Inr e1))
      | Some (BlockListTracker p bl) \<Rightarrow>
          Inr (called (map (\<lambda>x. Destroy (ExternalDestroyable (ln_id x))) bl) e))"
| "destroy_each k [] e = Inr e"
| "destroy_each k (d # ds) e =
     (case d of
        ExternalDestroyable i \<Rightarrow> destroy_each k ds (called [Destroy d] e)
      | TrackerDestroyable t \<Rightarrow>
          (case destroy_tracker k t (called [Destroy d] e) of
             Inl err \<Rightarrow> Inl err
           | Inr e1 \<Rightarrow> destroy_each k ds e1))"

definition destroy :: "tid \<Rightarrow> environment \<Rightarrow> error + environment" where
  "destroy t e = destroy_tracker (Suc (length (trackers e))) t e"

text \<open>
  \<open>UpdatableBlockTracker.reset(env)\<close>. The method exists on this class only.
\<close>

definition reset :: "tid \<Rightarrow> environment \<Rightarrow> error + (node option \<times> environment)" where
  "reset t e =
     (case tracker_at (trackers e) t of
        None \<Rightarrow> Inl DanglingReference
      | Some (BlockListTracker p bl) \<Rightarrow> Inl (TypeError ''reset is not a function'')
      | Some (SimpleBlockTracker kd s) \<Rightarrow>
          (if kd \<noteq> Updatable then Inl (TypeError ''reset is not a function'')
           else
             (case clear (TrackerBounds t)
                     (called (map DidDestroy (case destroyables s of None \<Rightarrow> [] | Some ds \<Rightarrow> ds)) e) of
                Inl err \<Rightarrow> Inl err
              | Inr (nextSibling, e1) \<Rightarrow>
                  Inr (nextSibling,
                       e1\<lparr>trackers := (trackers e1)
                            [t := SimpleBlockTracker kd
                                    (s\<lparr>first := None, last_t := None,
                                       destroyables := None, nesting := 0\<rparr>)]\<rparr>))))"


subsection \<open>Values handed to the dynamic content resolver\<close>

text \<open>
  Modelled from the spec: an \<open>Opaque\<close> value and the probes \<open>isNode\<close>, \<open>isSafeString\<close>,
  \<open>isString\<close>, \<open>isEmpty\<close> of ../dom/normalize, as the tagged union the spec names: a
  realized node, a marked-safe value with its markup, a plain string, an absent value, and
  any other value with its generic string conversion.
\<close>

datatype opaque =
    NodeValue node
  | SafeString string
  | StringValue string
  | Empty
  | Other string

fun isNode :: "opaque \<Rightarrow> bool" where
  "isNode (NodeValue n) = True"
| "isNode v = False"

fun isSafeString :: "opaque \<Rightarrow> bool" where
  "isSafeString (SafeString h) = True"
| "isSafeString v = False"

fun isString :: "opaque \<Rightarrow> bool" where
  "isString (StringValue s) = True"
| "isString v = False"

fun isEmpty :: "opaque \<Rightarrow> bool" where
  "isEmpty Empty = True"
| "isEmpty v = False"

fun toHTML :: "opaque \<Rightarrow> string" where
  "toHTML (SafeString h) = h"
| "toHTML v = []"

fun string_of :: "opaque \<Rightarrow> string" where
  "string_of (StringValue s) = s"
| "string_of (SafeString h) = h"
| "string_of (Other s) = s"
| "string_of v = []"

fun node_of :: "opaque \<Rightarrow> node" where
  "node_of (NodeValue n) = n"
| "node_of v = 0"

text \<open>
  Modelled from the spec: the content classes of ./content and their wrapper, of which the
  builder only calls the constructors.
\<close>

datatype dynamic_content =
    DynamicNodeContent bounds node
  | DynamicTrustedHTMLContent bounds string
  | DynamicHTMLContent bounds opaque
  | DynamicTextContent bounds string

datatype dynamic_content_wrapper = DynamicContentWrapper dynamic_content

subsection \<open>The builder\<close>

text \<open>
  The fields of \<open>NewElementBuilder\<close>. \<open>env\<close> stands for what the builder reaches through
  \<open>this.env\<close>, \<open>this.dom\<close> and its tracker references: the store, the tree and the log.
  A \<open>Stack\<close> of the utilities package is a list with its top at the head; \<open>current\<close> is the top,
  absent for the empty stack, and \<open>pop\<close> on the empty stack changes nothing.
\<close>

record builder =
  env :: environment
  element :: node
  nextSibling :: "node option"
  constructing :: "node option"
  operations :: "element_operations option"
  defaultOperations :: element_operations
  elementStack :: "node list"
  nextSiblingStack :: "node option list"
  blockStack :: "tid list"

text \<open>
  Modelled from the spec: \<open>current\<close> of the utilities' \<open>Stack\<close>: the top, absent when the
  stack is empty.
\<close>

definition current :: "'a list \<Rightarrow> 'a option" where
  "current s = (case s of [] \<Rightarrow> None | x # xs \<Rightarrow> Some x)"

text \<open>
  Modelled from the spec: \<open>expect(value, message)\<close> of the utilities package, absent from this
  file: a fatal failure with the message when the value is absent.
\<close>

definition expect :: "'a option \<Rightarrow> string \<Rightarrow> error + 'a" where
  "expect v msg = (case v of None \<Rightarrow> Inl (ExpectFailed msg) | Some x \<Rightarrow> Inr x)"

definition expectConstructing :: "string \<Rightarrow> builder \<Rightarrow> error + node" where
  "expectConstructing method b =
     expect (constructing b) (method @ '' should only be called while constructing an element'')"

definition expectOperations :: "string \<Rightarrow> builder \<Rightarrow> error + element_operations" where
  "expectOperations method b =
     expect (operations b) (method @ '' should only be called while constructing an element'')"

definition block :: "builder \<Rightarrow> error + tid" where
  "block b = expect (current (blockStack b)) ''Expected a current block tracker''"

text \<open>
  A method call on the current block, \<open>this.block().m(...)\<close>: the tracker in the store is
  replaced by what the method leaves.
\<close>

definition on_block :: "(tracker \<Rightarrow> error + tracker) \<Rightarrow> builder \<Rightarrow> error + builder" where
  "on_block m b =
     (case block b of
        Inl err \<Rightarrow> Inl err
      | Inr t \<Rightarrow>
          (case tracker_at (trackers (env b)) t of
             None \<Rightarrow> Inl DanglingReference
           | Some tr \<Rightarrow>
               (case m tr of
                  Inl err \<Rightarrow> Inl err
                | Inr tr' \<Rightarrow>
                    Inr (b\<lparr>env := (env b)\<lparr>trackers := (trackers (env b))[t := tr']\<rparr>\<rparr>))))"

definition popElement :: "builder \<Rightarrow> error + (node option \<times> builder)" where
  "popElement b =
     (let topElement = current (elementStack b);
          es = tl (elementStack b);
          ns = tl (nextSiblingStack b)
      in case expect (current es) ''can't pop past the last element'' of
           Inl err \<Rightarrow> Inl err
         | Inr e \<Rightarrow>
             Inr (topElement,
                  b\<lparr>elementStack := es, nextSiblingStack := ns, element := e,
                    nextSibling := (case current ns of None \<Rightarrow> None | Some n \<Rightarrow> n)\<rparr>))"

text \<open>\<open>new T(...)\<close> for a tracker: the object takes the next address of the store.\<close>

definition alloc :: "tracker \<Rightarrow> builder \<Rightarrow> tid \<times> builder" where
  "alloc tr b =
     (length (trackers (env b)),
      b\<lparr>env := (env b)\<lparr>trackers := trackers (env b) @ [tr]\<rparr>\<rparr>)"

definition pushBlockTracker :: "tid \<Rightarrow> bool \<Rightarrow> builder \<Rightarrow> error + builder" where
  "pushBlockTracker t isRemote b =
     (case current (blockStack b) of
        None \<Rightarrow> Inr (b\<lparr>blockStack := t # blockStack b\<rparr>)
      | Some c \<Rightarrow>
          (case tracker_at (trackers (env b)) c of
             None \<Rightarrow> Inl DanglingReference
           | Some cur \<Rightarrow>
               (let cur1 = tracker_newDestroyable cur (TrackerDestroyable t);
                    cur2 = (if \<not> isRemote then tracker_newBounds cur1 (TrackerBounds t) else cur1)
                in Inr (b\<lparr>env := (env b)\<lparr>trackers := (trackers (env b))[c := cur2]\<rparr>,
                         blockStack := t # blockStack b\<rparr>))))"

definition pushSimpleBlock :: "builder \<Rightarrow> error + (tid \<times> builder)" where
  "pushSimpleBlock b =
     (case alloc (new_tracker Simple (element b)) b of
        (t, b1) \<Rightarrow>
          (case pushBlockTracker t False b1 of Inl err \<Rightarrow> Inl err | Inr b2 \<Rightarrow> Inr (t, b2)))"

definition pushUpdatableBlock :: "builder \<Rightarrow> error + (tid \<times> builder)" where
  "pushUpdatableBlock b =
     (case alloc (new_tracker Updatable (element b)) b of
        (t, b1) \<Rightarrow>
          (case pushBlockTracker t False b1 of Inl err \<Rightarrow> Inl err | Inr b2 \<Rightarrow> Inr (t, b2)))"

definition pushBlockList :: "list_node list \<Rightarrow> builder \<Rightarrow> error + (tid \<times> builder)" where
  "pushBlockList list b =
     (case alloc (BlockListTracker (element b) list) b of
        (t, b1) \<Rightarrow>
          (case current (blockStack b1) of
             None \<Rightarrow> Inr (t, b1\<lparr>blockStack := t # blockStack b1\<rparr>)
           | Some c \<Rightarrow>
               (case tracker_at (trackers (env b1)) c of
                  None \<Rightarrow> Inl DanglingReference
                | Some cur \<Rightarrow>
                    (let cur1 = tracker_newDestroyable cur (TrackerDestroyable t);
                         cur2 = tracker_newBounds cur1 (TrackerBounds t)
                     in Inr (t, b1\<lparr>env := (env b1)\<lparr>trackers := (trackers (env b1))[c := cur2]\<rparr>,
                                    blockStack := t # blockStack b1\<rparr>)))))"

definition pushElement :: "node \<Rightarrow> node option \<Rightarrow> builder \<Rightarrow> builder" where
  "pushElement e n b =
     b\<lparr>element := e, elementStack := e # elementStack b,
       nextSibling := n, nextSiblingStack := n # nextSiblingStack b\<rparr>"

definition didAddDestroyable :: "destroyable \<Rightarrow> builder \<Rightarrow> error + builder" where
  "didAddDestroyable d b = on_block (\<lambda>tr. Inr (tracker_newDestroyable tr d)) b"

definition didAppendBounds :: "bounds \<Rightarrow> builder \<Rightarrow> error + (bounds \<times> builder)" where
  "didAppendBounds bs b =
     (case on_block (\<lambda>tr. Inr (tracker_newBounds tr bs)) b of
        Inl err \<Rightarrow> Inl err
      | Inr b' \<Rightarrow> Inr (bs, b'))"

definition didAppendNode :: "node \<Rightarrow> builder \<Rightarrow> error + (node \<times> builder)" where
  "didAppendNode n b =
     (case on_block (\<lambda>tr. tracker_newNode tr n) b of
        Inl err \<Rightarrow> Inl err
      | Inr b' \<Rightarrow> Inr (n, b'))"

definition didOpenElement :: "node \<Rightarrow> builder \<Rightarrow> error + (node \<times> builder)" where
  "didOpenElement e b =
     (case on_block (\<lambda>tr. tracker_openElement tr e) b of
        Inl err \<Rightarrow> Inl err
      | Inr b' \<Rightarrow> Inr (e, b'))"

definition willCloseElement :: "builder \<Rightarrow> error + builder" where
  "willCloseElement b = on_block tracker_closeElement b"

text \<open>A call of a tree operation by the builder: the tree changes and the call is logged.\<close>

definition with_tree :: "dom_tree \<Rightarrow> event list \<Rightarrow> builder \<Rightarrow> builder" where
  "with_tree d es b = b\<lparr>env := called es ((env b)\<lparr>tree := d\<rparr>)\<rparr>"

definition openElement ::
  "string \<Rightarrow> element_operations option \<Rightarrow> builder \<Rightarrow> error + (node \<times> builder)" where
  "openElement tag ops b =
     (let operations' = (case ops of None \<Rightarrow> defaultOperations b | Some operations' \<Rightarrow> operations')
      in case createElement tag (element b) (tree (env b)) of
           (e, d) \<Rightarrow>
             Inr (e, (with_tree d [CreateElement tag (element b) e] b)
                       \<lparr>constructing := Some e, operations := Some operations'\<rparr>))"

definition flushElement :: "builder \<Rightarrow> error + builder" where
  "flushElement b =
     (let parent' = element b
      in case expect (constructing b)
                ''flushElement should only be called when constructing an element'' of
           Inl err \<Rightarrow> Inl err
         | Inr e \<Rightarrow>
             (let b1 = with_tree (insertBefore parent' e (nextSibling b) (tree (env b)))
                         [InsertBefore parent' e (nextSibling b)] b;
                  b2 = b1\<lparr>constructing := None, operations := None\<rparr>;
                  b3 = pushElement e None b2
              in case didOpenElement e b3 of
                   Inl err \<Rightarrow> Inl err
                 | Inr (e', b4) \<Rightarrow> Inr b4))"

definition pushRemoteElement :: "node \<Rightarrow> node option \<Rightarrow> builder \<Rightarrow> error + builder" where
  "pushRemoteElement e n b =
     (case alloc (new_tracker Remote e) (pushElement e n b) of
        (t, b1) \<Rightarrow> pushBlockTracker t True b1)"

definition appendText :: "string \<Rightarrow> builder \<Rightarrow> error + (node \<times> builder)" where
  "appendText text b =
     (case createTextNode text (tree (env b)) of
        (n, d) \<Rightarrow>
          didAppendNode n
            (with_tree (insertBefore (element b) n (nextSibling b) d)
               [CreateTextNode text n, InsertBefore (element b) n (nextSibling b)] b))"

definition appendNode :: "node \<Rightarrow> builder \<Rightarrow> error + (node \<times> builder)" where
  "appendNode n b =
     didAppendNode n
       (with_tree (insertBefore (element b) n (nextSibling b) (tree (env b)))
          [InsertBefore (element b) n (nextSibling b)] b)"

definition appendHTML :: "string \<Rightarrow> builder \<Rightarrow> error + (bounds \<times> builder)" where
  "appendHTML html b =
     (case insertHTMLBefore (element b) (nextSibling b) html (tree (env b)) of
        (bs, d) \<Rightarrow>
          didAppendBounds bs
            (with_tree d [InsertHTMLBefore (element b) (nextSibling b) html] b))"

definition appendComment :: "string \<Rightarrow> builder \<Rightarrow> error + (node \<times> builder)" where
  "appendComment text b =
     (case createComment text (tree (env b)) of
        (n, d) \<Rightarrow>
          didAppendNode n
            (with_tree (insertBefore (element b) n (nextSibling b) d)
               [CreateComment text n, InsertBefore (element b) n (nextSibling b)] b))"

definition appendTrustingDynamicContent ::
  "opaque \<Rightarrow> builder \<Rightarrow> error + (dynamic_content_wrapper \<times> builder)" where
  "appendTrustingDynamicContent v b =
     (if isNode v then
        (case appendNode (node_of v) b of
           Inl err \<Rightarrow> Inl err
         | Inr (n, b') \<Rightarrow>
             Inr (DynamicContentWrapper (DynamicNodeContent (single (element b') n) n), b'))
      else
        (let normalized =
               (if isEmpty v then []
                else if isSafeString v then toHTML v
                else if isString v then string_of v
                else string_of v)
         in case appendHTML normalized b of
              Inl err \<Rightarrow> Inl err
            | Inr (bs, b') \<Rightarrow>
                Inr (DynamicContentWrapper (DynamicTrustedHTMLContent bs normalized), b')))"

definition appendCautiousDynamicContent ::
  "opaque \<Rightarrow> builder \<Rightarrow> error + (dynamic_content_wrapper \<times> builder)" where
  "appendCautiousDynamicContent v b =
     (if isNode v then
        (case appendNode (node_of v) b of
           Inl err \<Rightarrow> Inl err
         | Inr (n, b') \<Rightarrow>
             Inr (DynamicContentWrapper (DynamicNodeContent (single (element b') n) n), b'))
      else if isSafeString v then
        (let normalized = toHTML v
         in case appendHTML normalized b of
              Inl err \<Rightarrow> Inl err
            | Inr (bs, b') \<Rightarrow> Inr (DynamicContentWrapper (DynamicHTMLContent bs v), b'))
      else
        (let normalized =
               (if isEmpty v then []
                else if isString v then string_of v
                else string_of v)
         in case appendText normalized b of
              Inl err \<Rightarrow> Inl err
            | Inr (textNode, b') \<Rightarrow>
                Inr (DynamicContentWrapper
                       (DynamicTextContent (single (element b') textNode) normalized), b')))"


text \<open>
  \<open>finalize(stack)\<close>: \<open>SimpleBlockTracker\<close> appends an empty comment through the builder
  when \<open>first\<close> is absent; an empty method on \<open>BlockListTracker\<close>.
\<close>

definition finalize :: "tid \<Rightarrow> builder \<Rightarrow> error + builder" where
  "finalize t stack =
     (case tracker_at (trackers (env stack)) t of
        None \<Rightarrow> Inl DanglingReference
      | Some (SimpleBlockTracker kd s) \<Rightarrow>
          (if first s = None then
             (case appendComment [] stack of
                Inl err \<Rightarrow> Inl err
              | Inr (n, stack') \<Rightarrow> Inr stack')
           else Inr stack)
      | Some (BlockListTracker p bl) \<Rightarrow> Inr stack)"

definition popBlock :: "builder \<Rightarrow> error + (tid \<times> builder)" where
  "popBlock b =
     (case block b of
        Inl err \<Rightarrow> Inl err
      | Inr t \<Rightarrow>
          (case finalize t b of
             Inl err \<Rightarrow> Inl err
           | Inr b1 \<Rightarrow>
               (case expect (current (blockStack b1)) ''Expected popBlock to return a block'' of
                  Inl err \<Rightarrow> Inl err
                | Inr t' \<Rightarrow> Inr (t', b1\<lparr>blockStack := tl (blockStack b1)\<rparr>))))"

definition popRemoteElement :: "builder \<Rightarrow> error + builder" where
  "popRemoteElement b =
     (case popBlock b of
        Inl err \<Rightarrow> Inl err
      | Inr (t, b1) \<Rightarrow>
          (case popElement b1 of Inl err \<Rightarrow> Inl err | Inr (e, b2) \<Rightarrow> Inr b2))"

text \<open>
  The attribute setters evaluate \<open>expectOperations\<close>, then \<open>expectConstructing\<close>, and call the
  attribute-operations capability, which is opaque; a reference is known by its identity.
\<close>

definition setStaticAttribute :: "string \<Rightarrow> string \<Rightarrow> builder \<Rightarrow> error + builder" where
  "setStaticAttribute name v b =
     (case expectOperations ''setStaticAttribute'' b of
        Inl err \<Rightarrow> Inl err
      | Inr ops \<Rightarrow>
          (case expectConstructing ''setStaticAttribute'' b of
             Inl err \<Rightarrow> Inl err
           | Inr e \<Rightarrow> Inr (b\<lparr>env := called [AddStaticAttribute ops e name v] (env b)\<rparr>)))"

definition setStaticAttributeNS :: "string \<Rightarrow> string \<Rightarrow> string \<Rightarrow> builder \<Rightarrow> error + builder" where
  "setStaticAttributeNS ns name v b =
     (case expectOperations ''setStaticAttributeNS'' b of
        Inl err \<Rightarrow> Inl err
      | Inr ops \<Rightarrow>
          (case expectConstructing ''setStaticAttributeNS'' b of
             Inl err \<Rightarrow> Inl err
           | Inr e \<Rightarrow> Inr (b\<lparr>env := called [AddStaticAttributeNS ops e ns name v] (env b)\<rparr>)))"

definition setDynamicAttribute :: "string \<Rightarrow> nat \<Rightarrow> bool \<Rightarrow> builder \<Rightarrow> error + builder" where
  "setDynamicAttribute name reference isTrusting b =
     (case expectOperations ''setDynamicAttribute'' b of
        Inl err \<Rightarrow> Inl err
      | Inr ops \<Rightarrow>
          (case expectConstructing ''setDynamicAttribute'' b of
             Inl err \<Rightarrow> Inl err
           | Inr e \<Rightarrow>
               Inr (b\<lparr>env := called [AddDynamicAttribute ops e name reference isTrusting] (env b)\<rparr>)))"

definition setDynamicAttributeNS ::
  "string \<Rightarrow> string \<Rightarrow> nat \<Rightarrow> bool \<Rightarrow> builder \<Rightarrow> error + builder" where
  "setDynamicAttributeNS ns name reference isTrusting b =
     (case expectOperations ''setDynamicAttributeNS'' b of
        Inl err \<Rightarrow> Inl err
      | Inr ops \<Rightarrow>
          (case expectConstructing ''setDynamicAttributeNS'' b of
             Inl err \<Rightarrow> Inl err
           | Inr e \<Rightarrow>
               Inr (b\<lparr>env := called [AddDynamicAttributeNS ops e ns name reference isTrusting]
                              (env b)\<rparr>)))"

definition closeElement :: "builder \<Rightarrow> error + builder" where
  "closeElement b =
     (case willCloseElement b of
        Inl err \<Rightarrow> Inl err
      | Inr b1 \<Rightarrow>
          (case popElement b1 of Inl err \<Rightarrow> Inl err | Inr (e, b2) \<Rightarrow> Inr b2))"

text \<open>
  The constructor (and \<open>forInitialRender\<close>, which only calls it): the fields are set, a simple
  block is pushed, then the element and the next sibling are pushed on their stacks.
\<close>

definition new_builder :: "environment \<Rightarrow> node \<Rightarrow> node option \<Rightarrow> error + builder" where
  "new_builder e parentNode nextSibling' =
     (case pushSimpleBlock
             \<lparr>env = e, element = parentNode, nextSibling = nextSibling',
              constructing = None, operations = None,
              defaultOperations = SimpleElementOperations,
              elementStack = [], nextSiblingStack = [], blockStack = []\<rparr> of
        Inl err \<Rightarrow> Inl err
      | Inr (t, b) \<Rightarrow>
          Inr (b\<lparr>elementStack := element b # elementStack b,
                 nextSiblingStack := nextSibling b # nextSiblingStack b\<rparr>))"

text \<open>
  \<open>resume(env, tracker, nextSibling)\<close>: a new builder on the parent of a tracker the caller
  holds, with that tracker pushed on top of the constructor's simple block.
\<close>

definition resume :: "environment \<Rightarrow> tid \<Rightarrow> node option \<Rightarrow> error + builder" where
  "resume e t nextSibling' =
     (case tracker_at (trackers e) t of
        None \<Rightarrow> Inl DanglingReference
      | Some tr \<Rightarrow>
          (case new_builder e (tracker_parentElement tr) nextSibling' of
             Inl err \<Rightarrow> Inl err
           | Inr stack \<Rightarrow> pushBlockTracker t False stack))"

subsection \<open>Sequences of operations\<close>

text \<open>
  The operations of the interfaces \<open>DOMStack\<close> and \<open>ElementBuilder\<close> that change the builder,
  and the two tracker methods a caller invokes on a tracker it holds. A sequence stops at the
  first operation that throws.
\<close>

datatype operation =
    PushRemoteElement node "node option"
  | PopRemoteElement
  | PopElement
  | OpenElement string "element_operations option"
  | FlushElement
  | AppendText string
  | AppendComment string
  | AppendNode node
  | AppendHTML string
  | AppendTrustingDynamicContent opaque
  | AppendCautiousDynamicContent opaque
  | SetStaticAttribute string string
  | SetStaticAttributeNS string string string
  | SetDynamicAttribute string nat bool
  | SetDynamicAttributeNS string string nat bool
  | CloseElement
  | PushSimpleBlock
  | PushUpdatableBlock
  | PushBlockList "list_node list"
  | PopBlock
  | DidAddDestroyable destroyable
  | DidAppendBounds bounds
  | DidAppendNode node
  | DidOpenElement node
  | WillCloseElement
  | TrackerReset tid
  | TrackerDestroy tid

definition dropping :: "error + ('a \<times> builder) \<Rightarrow> error + builder" where
  "dropping r = (case r of Inl err \<Rightarrow> Inl err | Inr (x, b) \<Rightarrow> Inr b)"

fun step :: "operation \<Rightarrow> builder \<Rightarrow> error + builder" where
  "step (PushRemoteElement e n) b = pushRemoteElement e n b"
| "step PopRemoteElement b = popRemoteElement b"
| "step PopElement b = dropping (popElement b)"
| "step (OpenElement tag ops) b = dropping (openElement tag ops b)"
| "step FlushElement b = flushElement b"
| "step (AppendText s) b = dropping (appendText s b)"
| "step (AppendComment s) b = dropping (appendComment s b)"
| "step (AppendNode n) b = dropping (appendNode n b)"
| "step (AppendHTML h) b = dropping (appendHTML h b)"
| "step (AppendTrustingDynamicContent v) b = dropping (appendTrustingDynamicContent v b)"
| "step (AppendCautiousDynamicContent v) b = dropping (appendCautiousDynamicContent v b)"
| "step (SetStaticAttribute name v) b = setStaticAttribute name v b"
| "step (SetStaticAttributeNS ns name v) b = setStaticAttributeNS ns name v b"
| "step (SetDynamicAttribute name r tr) b = setDynamicAttribute name r tr b"
| "step (SetDynamicAttributeNS ns name r tr) b = setDynamicAttributeNS ns name r tr b"
| "step CloseElement b = closeElement b"
| "step PushSimpleBlock b = dropping (pushSimpleBlock b)"
| "step PushUpdatableBlock b = dropping (pushUpdatableBlock b)"
| "step (PushBlockList l) b = dropping (pushBlockList l b)"
| "step PopBlock b = dropping (popBlock b)"
| "step (DidAddDestroyable d) b = didAddDestroyable d b"
| "step (DidAppendBounds bs) b = dropping (didAppendBounds bs b)"
| "step (DidAppendNode n) b = dropping (didAppendNode n b)"
| "step (DidOpenElement e) b = dropping (didOpenElement e b)"
| "step WillCloseElement b = willCloseElement b"
| "step (TrackerReset t) b =
     (case reset t (env b) of Inl err \<Rightarrow> Inl err | Inr (n, e) \<Rightarrow> Inr (b\<lparr>env := e\<rparr>))"
| "step (TrackerDestroy t) b =
     (case destroy t (env b) of Inl err \<Rightarrow> Inl err | Inr e \<Rightarrow> Inr (b\<lparr>env := e\<rparr>))"

fun run :: "operation list \<Rightarrow> builder \<Rightarrow> error + builder" where
  "run [] b = Inr b"
| "run (x # xs) b = (case step x b of Inl err \<Rightarrow> Inl err | Inr b' \<Rightarrow> run xs b')"

subsection \<open>Predicates and examples used in the statements\<close>

definition stacks_aligned :: "builder \<Rightarrow> bool" where
  "stacks_aligned b = (length (elementStack b) = length (nextSiblingStack b))"




text \<open>
  An empty tree whose parser gives two top-level nodes for any markup, and builders reached
  from the constructor by the operations shown.
\<close>

definition example_env :: environment where
  "example_env =
     \<lparr>trackers = [],
      tree = \<lparr>contents = (\<lambda>n. None), children = (\<lambda>n. []), next_node = 1,
              parseHTML = (\<lambda>s. [ElementData ''b'', TextData ''x''])\<rparr>,
      calls = []\<rparr>"

definition example_builder :: builder where
  "example_builder = projr (new_builder example_env 0 None)"

definition example_nested :: builder where
  "example_nested = projr (run [OpenElement ''div'' None, FlushElement] example_builder)"

definition example_constructing :: builder where
  "example_constructing = projr (run [OpenElement ''div'' None] example_builder)"

definition example_flow :: builder where
  "example_flow =
     projr (run [OpenElement ''div'' None, FlushElement, AppendText ''hi'', CloseElement]
              example_builder)"


definition example_unbalanced :: builder where
  "example_unbalanced = projr (run [WillCloseElement] example_builder)"


definition example_updatable :: builder where
  "example_updatable =
     projr (run [PushUpdatableBlock, DidAddDestroyable (ExternalDestroyable 7),
                 DidAddDestroyable (ExternalDestroyable 8), AppendText ''a'', AppendText ''b'',
                 PopBlock, AppendText ''c''] example_builder)"

definition example_list :: builder where
  "example_list =
     projr (run [PushBlockList [\<lparr>ln_id = 7, ln_bounds = ConcreteBounds 0 None None\<rparr>]]
              example_builder)"

definition example_list_constructing :: builder where
  "example_list_constructing = projr (run [OpenElement ''div'' None] example_list)"

section \<open>Properties\<close>

subsection \<open>Auxiliary facts\<close>

declare simple_newNode_def [simp] simple_newBounds_def [simp]

lemma Inr_projr: "\<not> isl x \<Longrightarrow> x = Inr (projr x)"
  by (cases x) auto

lemma tracker_at_update_same: "tracker_at ts t = Some tr \<Longrightarrow> ts[t := tr] = ts"
  by (auto simp: tracker_at_def split: if_splits)

lemma tracker_at_update: "tracker_at ts t = Some tr \<Longrightarrow> tracker_at (ts[t := tr']) t = Some tr'"
  by (auto simp: tracker_at_def split: if_splits)

lemma with_tree_fields [simp]:
  "element (with_tree d es b) = element b"
  "nextSibling (with_tree d es b) = nextSibling b"
  "constructing (with_tree d es b) = constructing b"
  "operations (with_tree d es b) = operations b"
  "defaultOperations (with_tree d es b) = defaultOperations b"
  "elementStack (with_tree d es b) = elementStack b"
  "nextSiblingStack (with_tree d es b) = nextSiblingStack b"
  "blockStack (with_tree d es b) = blockStack b"
  "trackers (env (with_tree d es b)) = trackers (env b)"
  "tree (env (with_tree d es b)) = d"
  "calls (env (with_tree d es b)) = calls (env b) @ es"
  "block (with_tree d es b) = block b"
  by (simp_all add: with_tree_def called_def block_def)

lemma pushElement_fields [simp]:
  "element (pushElement e n b) = e"
  "nextSibling (pushElement e n b) = n"
  "constructing (pushElement e n b) = constructing b"
  "operations (pushElement e n b) = operations b"
  "elementStack (pushElement e n b) = e # elementStack b"
  "nextSiblingStack (pushElement e n b) = n # nextSiblingStack b"
  "blockStack (pushElement e n b) = blockStack b"
  "env (pushElement e n b) = env b"
  "block (pushElement e n b) = block b"
  by (simp_all add: pushElement_def block_def)

lemma block_update [simp]:
  "block (b\<lparr>constructing := c\<rparr>) = block b"
  "block (b\<lparr>operations := ops\<rparr>) = block b"
  "block (b\<lparr>env := e\<rparr>) = block b"
  by (simp_all add: block_def)

lemma called_fields [simp]:
  "trackers (called es e) = trackers e"
  "tree (called es e) = tree e"
  "calls (called es e) = calls e @ es"
  "firstNode (called es e) bs = firstNode e bs"
  "lastNode (called es e) bs = lastNode e bs"
  by (simp_all add: called_def firstNode_def lastNode_def)

lemma on_block_unchanged:
  "block b = Inr t \<Longrightarrow> tracker_at (trackers (env b)) t = Some tr \<Longrightarrow> m tr = Inr tr \<Longrightarrow>
   on_block m b = Inr b"
  by (simp add: on_block_def tracker_at_update_same)

lemma on_block_frame:
  "on_block m b = Inr b' \<Longrightarrow>
   elementStack b' = elementStack b \<and> nextSiblingStack b' = nextSiblingStack b \<and>
   blockStack b' = blockStack b \<and> element b' = element b \<and> nextSibling b' = nextSibling b \<and>
   constructing b' = constructing b \<and> operations b' = operations b \<and>
   tree (env b') = tree (env b) \<and> calls (env b') = calls (env b)"
  by (auto simp: on_block_def split: sum.splits option.splits)

paragraph \<open>The two stacks under every operation\<close>

lemma on_block_aligned: "on_block m b = Inr b' \<Longrightarrow> stacks_aligned b' = stacks_aligned b"
  by (simp add: stacks_aligned_def on_block_frame)

lemma did_aligned:
  "didAppendNode n b = Inr (x, b') \<Longrightarrow> stacks_aligned b' = stacks_aligned b"
  "didAppendBounds bs b = Inr (y, b') \<Longrightarrow> stacks_aligned b' = stacks_aligned b"
  "didOpenElement n b = Inr (x, b') \<Longrightarrow> stacks_aligned b' = stacks_aligned b"
  "didAddDestroyable d b = Inr b' \<Longrightarrow> stacks_aligned b' = stacks_aligned b"
  "willCloseElement b = Inr b' \<Longrightarrow> stacks_aligned b' = stacks_aligned b"
  by (auto simp: didAppendNode_def didAppendBounds_def didOpenElement_def didAddDestroyable_def
      willCloseElement_def on_block_aligned split: sum.splits)

lemma with_tree_aligned [simp]: "stacks_aligned (with_tree d es b) = stacks_aligned b"
  by (simp add: stacks_aligned_def)

lemma update_aligned [simp]:
  "stacks_aligned (b\<lparr>env := e\<rparr>) = stacks_aligned b"
  "stacks_aligned (b\<lparr>constructing := c\<rparr>) = stacks_aligned b"
  "stacks_aligned (b\<lparr>operations := ops\<rparr>) = stacks_aligned b"
  "stacks_aligned (b\<lparr>blockStack := bl\<rparr>) = stacks_aligned b"
  by (simp_all add: stacks_aligned_def)

lemma pushElement_aligned [simp]: "stacks_aligned (pushElement e n b) = stacks_aligned b"
  by (simp add: stacks_aligned_def)

lemma append_aligned:
  "appendText s b = Inr (x, b') \<Longrightarrow> stacks_aligned b' = stacks_aligned b"
  "appendComment s b = Inr (x, b') \<Longrightarrow> stacks_aligned b' = stacks_aligned b"
  "appendNode n b = Inr (x, b') \<Longrightarrow> stacks_aligned b' = stacks_aligned b"
  "appendHTML s b = Inr (y, b') \<Longrightarrow> stacks_aligned b' = stacks_aligned b"
  by (auto simp: appendText_def appendComment_def appendNode_def appendHTML_def
      dest!: did_aligned split: prod.splits)

lemma dynamic_aligned:
  "appendTrustingDynamicContent v b = Inr (x, b') \<Longrightarrow> stacks_aligned b' = stacks_aligned b"
  "appendCautiousDynamicContent v b = Inr (x, b') \<Longrightarrow> stacks_aligned b' = stacks_aligned b"
  by (auto simp: appendTrustingDynamicContent_def appendCautiousDynamicContent_def Let_def
      dest!: append_aligned split: if_splits sum.splits prod.splits)

lemma popElement_stacks:
  "popElement b = Inr (x, b') \<Longrightarrow>
   elementStack b' = tl (elementStack b) \<and> nextSiblingStack b' = tl (nextSiblingStack b)"
  by (auto simp: popElement_def Let_def split: sum.splits)

lemma popElement_aligned: "popElement b = Inr (x, b') \<Longrightarrow> stacks_aligned b \<Longrightarrow> stacks_aligned b'"
  by (auto simp: stacks_aligned_def dest!: popElement_stacks)

lemma pushBlockTracker_aligned:
  "pushBlockTracker t r b = Inr b' \<Longrightarrow> stacks_aligned b' = stacks_aligned b"
  by (auto simp: pushBlockTracker_def stacks_aligned_def Let_def split: option.splits)

lemma push_aligned:
  "pushSimpleBlock b = Inr (t, b') \<Longrightarrow> stacks_aligned b' = stacks_aligned b"
  "pushUpdatableBlock b = Inr (t, b') \<Longrightarrow> stacks_aligned b' = stacks_aligned b"
  "pushBlockList l b = Inr (t, b') \<Longrightarrow> stacks_aligned b' = stacks_aligned b"
  "pushRemoteElement e n b = Inr b' \<Longrightarrow> stacks_aligned b' = stacks_aligned b"
  by (auto simp: pushSimpleBlock_def pushUpdatableBlock_def pushBlockList_def pushRemoteElement_def
      alloc_def stacks_aligned_def Let_def
      dest!: pushBlockTracker_aligned split: sum.splits option.splits)

lemma finalize_aligned: "finalize t b = Inr b' \<Longrightarrow> stacks_aligned b' = stacks_aligned b"
  by (auto simp: finalize_def dest!: append_aligned
      split: option.splits tracker.splits if_splits sum.splits)

lemma popBlock_aligned: "popBlock b = Inr (t, b') \<Longrightarrow> stacks_aligned b' = stacks_aligned b"
  by (auto simp: popBlock_def dest!: finalize_aligned split: sum.splits)

lemma flushElement_aligned: "flushElement b = Inr b' \<Longrightarrow> stacks_aligned b' = stacks_aligned b"
  by (auto simp: flushElement_def Let_def dest!: did_aligned split: sum.splits)

lemma openElement_aligned:
  "openElement tag ops b = Inr (e, b') \<Longrightarrow> stacks_aligned b' = stacks_aligned b"
  by (auto simp: openElement_def Let_def split: prod.splits)

lemma attr_aligned:
  "setStaticAttribute n v b = Inr b' \<Longrightarrow> stacks_aligned b' = stacks_aligned b"
  "setStaticAttributeNS ns n v b = Inr b' \<Longrightarrow> stacks_aligned b' = stacks_aligned b"
  "setDynamicAttribute n r tr b = Inr b' \<Longrightarrow> stacks_aligned b' = stacks_aligned b"
  "setDynamicAttributeNS ns n r tr b = Inr b' \<Longrightarrow> stacks_aligned b' = stacks_aligned b"
  by (auto simp: setStaticAttribute_def setStaticAttributeNS_def setDynamicAttribute_def
      setDynamicAttributeNS_def split: sum.splits)

lemma close_aligned:
  "closeElement b = Inr b' \<Longrightarrow> stacks_aligned b \<Longrightarrow> stacks_aligned b'"
  "popRemoteElement b = Inr b' \<Longrightarrow> stacks_aligned b \<Longrightarrow> stacks_aligned b'"
  by (auto simp: closeElement_def popRemoteElement_def
      dest!: did_aligned popBlock_aligned dest: popElement_aligned split: sum.splits)

lemma step_aligned: "step x b = Inr b' \<Longrightarrow> stacks_aligned b \<Longrightarrow> stacks_aligned b'"
proof (cases x)
  case PopElement
  assume "step x b = Inr b'" "stacks_aligned b"
  with PopElement show ?thesis
    by (auto simp: dropping_def dest: popElement_aligned split: sum.splits)
qed (auto simp: dropping_def
      dest!: push_aligned did_aligned append_aligned dynamic_aligned popBlock_aligned
        flushElement_aligned openElement_aligned attr_aligned
      dest: close_aligned split: sum.splits)

lemma run_aligned: "run xs b = Inr b' \<Longrightarrow> stacks_aligned b \<Longrightarrow> stacks_aligned b'"
  by (induction xs arbitrary: b) (auto dest: step_aligned split: sum.splits)

lemma new_builder_aligned: "new_builder e p n = Inr b \<Longrightarrow> stacks_aligned b"
  by (auto simp: new_builder_def stacks_aligned_def pushSimpleBlock_def alloc_def
      pushBlockTracker_def current_def split: sum.splits)

lemma resume_aligned: "resume e t n = Inr b \<Longrightarrow> stacks_aligned b"
  by (auto simp: resume_def dest!: pushBlockTracker_aligned dest: new_builder_aligned
      split: option.splits sum.splits)

paragraph \<open>Teardown only adds to the log and leaves the store of trackers as it is\<close>


lemma clear_result:
  "bounds_parentElement (trackers e) bs = Inr p \<Longrightarrow> firstNode e bs = Inr f \<Longrightarrow>
   lastNode e bs = Inr l \<Longrightarrow>
   clear bs e =
     Inr (snd (clear_range (children (tree e) p) f l),
          called [Clear p f l]
            (e\<lparr>tree := (tree e)\<lparr>children :=
                 (children (tree e))(p := fst (clear_range (children (tree e) p) f l))\<rparr>\<rparr>))"
  by (simp add: clear_def split: prod.splits)





paragraph \<open>What clearing a run of siblings leaves and returns\<close>

lemma takeWhile_upto: "f \<notin> set pre \<Longrightarrow> takeWhile (\<lambda>c. c \<noteq> f) (pre @ f # rest) = pre"
  by (induction pre) auto

lemma dropWhile_upto: "f \<notin> set pre \<Longrightarrow> dropWhile (\<lambda>c. c \<noteq> f) (pre @ f # rest) = f # rest"
  by (induction pre) auto

lemma clear_from_run:
  "l \<notin> set mid \<Longrightarrow>
   clear_from (mid @ l # post) (Some l) = (post, case post of [] \<Rightarrow> None | m # ms \<Rightarrow> Some m)"
  by (induction mid) auto

lemma clear_range_run:
  assumes "hd (mid @ [l]) \<notin> set pre" "l \<notin> set mid"
  shows "clear_range (pre @ mid @ l # post) (Some (hd (mid @ [l]))) (Some l) =
           (pre @ post, case post of [] \<Rightarrow> None | m # ms \<Rightarrow> Some m)"
proof -
  obtain rest where r: "mid @ l # post = hd (mid @ [l]) # rest"
    by (cases mid) auto
  have tw: "takeWhile (\<lambda>c. c \<noteq> hd (mid @ [l])) (pre @ mid @ l # post) = pre"
    unfolding r using assms(1) by (rule takeWhile_upto)
  have dw: "dropWhile (\<lambda>c. c \<noteq> hd (mid @ [l])) (pre @ mid @ l # post) = mid @ l # post"
    unfolding r using assms(1) by (rule dropWhile_upto)
  show ?thesis
    unfolding clear_range_def using assms(2) by (simp add: tw dw clear_from_run)
qed

paragraph \<open>The example builders\<close>

lemma example_builder_facts:
  "new_builder example_env 0 None = Inr example_builder"
  "block example_builder = Inr 0"
  "current (blockStack example_builder) = Some 0"
  "tracker_at (trackers (env example_builder)) 0 =
     Some (SimpleBlockTracker Simple
             \<lparr>parent = 0, first = None, last_t = None, destroyables = None, nesting = 0\<rparr>)"
  "element example_builder = 0"
  "nextSibling example_builder = None"
  "next_node (tree (env example_builder)) = 1"
  "calls (env example_builder) = []"
  "length (trackers (env example_builder)) = 1"
proof -
  have "\<not> isl (new_builder example_env 0 None)" by code_simp
  then show "new_builder example_env 0 None = Inr example_builder"
    unfolding example_builder_def by (rule Inr_projr)
qed code_simp+

lemma example_nested_facts:
  "run [OpenElement ''div'' None, FlushElement] example_builder = Inr example_nested"
  "block example_nested = Inr 0"
  "tracker_at (trackers (env example_nested)) 0 =
     Some (SimpleBlockTracker Simple
             \<lparr>parent = 0, first = Some (First 1), last_t = Some (Last 1),
                destroyables = None, nesting = 1\<rparr>)"
  "elementStack example_nested = [1, 0]"
  "nextSiblingStack example_nested = [None, None]"
  "\<not> isl (popElement example_nested)"
  "elementStack (snd (projr (popElement example_nested))) = [0]"
  "nextSiblingStack (snd (projr (popElement example_nested))) = [None]"
proof -
  have "\<not> isl (run [OpenElement ''div'' None, FlushElement] example_builder)" by code_simp
  then show "run [OpenElement ''div'' None, FlushElement] example_builder = Inr example_nested"
    unfolding example_nested_def by (rule Inr_projr)
qed code_simp+

lemma example_flow_facts:
  "run [OpenElement ''div'' None, FlushElement, AppendText ''hi'', CloseElement] example_builder =
     Inr example_flow"
  "elementStack example_flow = [0]"
  "nextSiblingStack example_flow = [None]"
proof -
  have "\<not> isl (run [OpenElement ''div'' None, FlushElement, AppendText ''hi'', CloseElement]
                 example_builder)" by code_simp
  then show "run [OpenElement ''div'' None, FlushElement, AppendText ''hi'', CloseElement]
               example_builder = Inr example_flow"
    unfolding example_flow_def by (rule Inr_projr)
qed code_simp+


lemma example_unbalanced_facts:
  "block example_unbalanced = Inr 0"
  "tracker_at (trackers (env example_unbalanced)) 0 =
     Some (SimpleBlockTracker Simple
             \<lparr>parent = 0, first = None, last_t = None, destroyables = None, nesting = - 1\<rparr>)"
  "element example_unbalanced = 0"
  "nextSibling example_unbalanced = None"
  "next_node (tree (env example_unbalanced)) = 1"
  "calls (env example_unbalanced) = []"
  by code_simp+


lemma example_updatable_facts:
  "tracker_at (trackers (env example_updatable)) 1 =
     Some (SimpleBlockTracker Updatable
             \<lparr>parent = 0, first = Some (First 1), last_t = Some (Last 2),
                destroyables = Some [ExternalDestroyable 7, ExternalDestroyable 8],
                nesting = 0\<rparr>)"
  "firstNode (env example_updatable) (TrackerBounds 1) = Inr (Some 1)"
  "lastNode (env example_updatable) (TrackerBounds 1) = Inr (Some 2)"
  "children (tree (env example_updatable)) 0 = [1, 2, 3]"
  "calls (env example_updatable) =
     [CreateTextNode ''a'' 1, InsertBefore 0 1 None, CreateTextNode ''b'' 2,
      InsertBefore 0 2 None, CreateTextNode ''c'' 3, InsertBefore 0 3 None]"
  by code_simp+

lemma example_list_facts:
  "block example_list = Inr 1"
  "current (blockStack example_list) = Some 1"
  "tracker_at (trackers (env example_list)) 1 =
     Some (BlockListTracker 0 [\<lparr>ln_id = 7, ln_bounds = ConcreteBounds 0 None None\<rparr>])"
  "length (trackers (env example_list)) = 2"
  "calls (env example_list) = []"
  by code_simp+

lemma example_list_constructing_facts:
  "block example_list_constructing = Inr 1"
  "tracker_at (trackers (env example_list_constructing)) 1 =
     Some (BlockListTracker 0 [\<lparr>ln_id = 7, ln_bounds = ConcreteBounds 0 None None\<rparr>])"
  "constructing example_list_constructing = Some 1"
  by code_simp+

subsection \<open>Bounds are taken at depth 0 only\<close>

text \<open>
  Claim C1. For a simple, updatable or remote tracker (kind \<open>k\<close>), \<open>newNode\<close> and
  \<open>newBounds\<close> leave the whole tracker, so its \<open>first\<close> and \<open>last\<close>, as it was whenever
  \<open>nesting\<close> is not 0, also when the node or the bounds are reported through the builder to
  the current block, and no append of the builder then changes the store of trackers;
  after \<open>openElement\<close> on a tracker of depth 0 or more the depth is not 0, so what is
  reported inside the element is ignored; at depth 0 the node or the bounds become \<open>last\<close>,
  and \<open>first\<close> when \<open>first\<close> was absent.
\<close>

theorem newNode_newBounds_only_at_depth_zero:
  "(nesting s \<noteq> 0 \<longrightarrow>
      tracker_newNode (SimpleBlockTracker k s) n = Inr (SimpleBlockTracker k s) \<and>
      tracker_newBounds (SimpleBlockTracker k s) bs = SimpleBlockTracker k s \<and>
      (block b = Inr t \<and> tracker_at (trackers (env b)) t = Some (SimpleBlockTracker k s) \<longrightarrow>
         didAppendNode n b = Inr (n, b) \<and> didAppendBounds bs b = Inr (bs, b) \<and>
         map_sum id (trackers \<circ> env \<circ> snd) (appendText str b) = Inr (trackers (env b)) \<and>
         map_sum id (trackers \<circ> env \<circ> snd) (appendComment str b) = Inr (trackers (env b)) \<and>
         map_sum id (trackers \<circ> env \<circ> snd) (appendNode n b) = Inr (trackers (env b)) \<and>
         map_sum id (trackers \<circ> env \<circ> snd) (appendHTML str b) = Inr (trackers (env b)))) \<and>
   (0 \<le> nesting s \<longrightarrow>
      (\<exists>s'. tracker_openElement (SimpleBlockTracker k s) e = Inr (SimpleBlockTracker k s') \<and>
            nesting s' = nesting s + 1 \<and>
            tracker_newNode (SimpleBlockTracker k s') n = Inr (SimpleBlockTracker k s') \<and>
            tracker_newBounds (SimpleBlockTracker k s') bs = SimpleBlockTracker k s')) \<and>
   (nesting s = 0 \<longrightarrow>
      tracker_newNode (SimpleBlockTracker k s) n =
        Inr (SimpleBlockTracker k
               (s\<lparr>first := (if first s = None then Some (First n) else first s),
                  last_t := Some (Last n)\<rparr>)) \<and>
      tracker_newBounds (SimpleBlockTracker k s) bs =
        SimpleBlockTracker k
          (s\<lparr>first := (if first s = None then Some (FirstBounds bs) else first s),
             last_t := Some (LastBounds bs)\<rparr>))"
proof (intro conjI impI)
  assume nz: "nesting s \<noteq> 0"
  then show "tracker_newNode (SimpleBlockTracker k s) n = Inr (SimpleBlockTracker k s)" by simp
  from nz show "tracker_newBounds (SimpleBlockTracker k s) bs = SimpleBlockTracker k s" by simp
next
  assume nz: "nesting s \<noteq> 0"
    and cur: "block b = Inr t \<and> tracker_at (trackers (env b)) t = Some (SimpleBlockTracker k s)"
  from nz cur show "didAppendNode n b = Inr (n, b)"
    by (simp add: didAppendNode_def
        on_block_unchanged [where t = t and tr = "SimpleBlockTracker k s"])
next
  assume nz: "nesting s \<noteq> 0"
    and cur: "block b = Inr t \<and> tracker_at (trackers (env b)) t = Some (SimpleBlockTracker k s)"
  from nz cur show "didAppendBounds bs b = Inr (bs, b)"
    by (simp add: didAppendBounds_def
        on_block_unchanged [where t = t and tr = "SimpleBlockTracker k s"])
next
  assume nz: "nesting s \<noteq> 0"
    and cur: "block b = Inr t \<and> tracker_at (trackers (env b)) t = Some (SimpleBlockTracker k s)"
  from nz cur show "map_sum id (trackers \<circ> env \<circ> snd) (appendText str b) = Inr (trackers (env b))"
    by (simp add: appendText_def didAppendNode_def on_block_def tracker_at_update_same
        split: prod.splits)
next
  assume nz: "nesting s \<noteq> 0"
    and cur: "block b = Inr t \<and> tracker_at (trackers (env b)) t = Some (SimpleBlockTracker k s)"
  from nz cur show "map_sum id (trackers \<circ> env \<circ> snd) (appendComment str b) = Inr (trackers (env b))"
    by (simp add: appendComment_def didAppendNode_def on_block_def tracker_at_update_same
        split: prod.splits)
next
  assume nz: "nesting s \<noteq> 0"
    and cur: "block b = Inr t \<and> tracker_at (trackers (env b)) t = Some (SimpleBlockTracker k s)"
  from nz cur show "map_sum id (trackers \<circ> env \<circ> snd) (appendNode n b) = Inr (trackers (env b))"
    by (simp add: appendNode_def didAppendNode_def on_block_def tracker_at_update_same)
next
  assume nz: "nesting s \<noteq> 0"
    and cur: "block b = Inr t \<and> tracker_at (trackers (env b)) t = Some (SimpleBlockTracker k s)"
  from nz cur show "map_sum id (trackers \<circ> env \<circ> snd) (appendHTML str b) = Inr (trackers (env b))"
    by (simp add: appendHTML_def didAppendBounds_def on_block_def tracker_at_update_same
        split: prod.splits)
next
  assume "0 \<le> nesting s"
  then show "\<exists>s'. tracker_openElement (SimpleBlockTracker k s) e = Inr (SimpleBlockTracker k s') \<and>
            nesting s' = nesting s + 1 \<and>
            tracker_newNode (SimpleBlockTracker k s') n = Inr (SimpleBlockTracker k s') \<and>
            tracker_newBounds (SimpleBlockTracker k s') bs = SimpleBlockTracker k s'"
    by (cases "nesting s = 0") auto
next
  assume "nesting s = 0"
  then show "tracker_newNode (SimpleBlockTracker k s) n =
        Inr (SimpleBlockTracker k
               (s\<lparr>first := (if first s = None then Some (First n) else first s),
                  last_t := Some (Last n)\<rparr>))" by simp
next
  assume "nesting s = 0"
  then show "tracker_newBounds (SimpleBlockTracker k s) bs =
        SimpleBlockTracker k
          (s\<lparr>first := (if first s = None then Some (FirstBounds bs) else first s),
             last_t := Some (LastBounds bs)\<rparr>)" by simp
qed

text \<open>
  The theorem at the builder that has opened and flushed a \<open>div\<close> (depth 1), and at a new
  tracker (depth 0).
\<close>

theorem newNode_newBounds_only_at_depth_zero_witness:
  "block example_nested = Inr 0 \<and>
   tracker_at (trackers (env example_nested)) 0 =
     Some (SimpleBlockTracker Simple
             \<lparr>parent = 0, first = Some (First 1), last_t = Some (Last 1),
                destroyables = None, nesting = 1\<rparr>) \<and>
   didAppendNode 5 example_nested = Inr (5, example_nested) \<and>
   didAppendBounds (ConcreteBounds 1 None None) example_nested =
     Inr (ConcreteBounds 1 None None, example_nested) \<and>
   map_sum id (trackers \<circ> env \<circ> snd) (appendText ''hi'' example_nested) =
     Inr (trackers (env example_nested)) \<and>
   tracker_newNode (new_tracker Simple 0) 5 =
     Inr (SimpleBlockTracker Simple
            \<lparr>parent = 0, first = Some (First 5), last_t = Some (Last 5),
               destroyables = None, nesting = 0\<rparr>) \<and>
   tracker_newNode
     (SimpleBlockTracker Simple
        \<lparr>parent = 0, first = Some (First 5), last_t = Some (Last 5),
           destroyables = None, nesting = 1\<rparr>) 6 =
     Inr (SimpleBlockTracker Simple
            \<lparr>parent = 0, first = Some (First 5), last_t = Some (Last 5),
               destroyables = None, nesting = 1\<rparr>)"
proof -
  let ?s = "\<lparr>parent = 0, first = Some (First 1), last_t = Some (Last 1),
             destroyables = None, nesting = 1\<rparr>"
  let ?z = "\<lparr>parent = 0, first = None, last_t = None, destroyables = None, nesting = 0\<rparr>"
  have h: "block example_nested = Inr 0"
    "tracker_at (trackers (env example_nested)) 0 = Some (SimpleBlockTracker Simple ?s)"
    by (rule example_nested_facts)+
  from newNode_newBounds_only_at_depth_zero
         [where s = "?s" and k = Simple and n = 5 and bs = "ConcreteBounds 1 None None"
            and b = example_nested and t = 0 and str = "''hi''"] h
  have a: "didAppendNode 5 example_nested = Inr (5, example_nested) \<and>
           didAppendBounds (ConcreteBounds 1 None None) example_nested =
             Inr (ConcreteBounds 1 None None, example_nested) \<and>
           map_sum id (trackers \<circ> env \<circ> snd) (appendText ''hi'' example_nested) =
             Inr (trackers (env example_nested))"
    by simp
  from newNode_newBounds_only_at_depth_zero
         [where s = "?z" and k = Simple and n = 5 and e = 5]
  have b: "tracker_newNode (new_tracker Simple 0) 5 =
             Inr (SimpleBlockTracker Simple
                    \<lparr>parent = 0, first = Some (First 5), last_t = Some (Last 5),
                       destroyables = None, nesting = 0\<rparr>)"
    by (simp add: new_tracker_def)
  from newNode_newBounds_only_at_depth_zero
         [where s = "?z\<lparr>first := Some (First 5), last_t := Some (Last 5), nesting := 1\<rparr>"
            and k = Simple and n = 6]
  have c: "tracker_newNode
     (SimpleBlockTracker Simple
        \<lparr>parent = 0, first = Some (First 5), last_t = Some (Last 5),
           destroyables = None, nesting = 1\<rparr>) 6 =
     Inr (SimpleBlockTracker Simple
            \<lparr>parent = 0, first = Some (First 5), last_t = Some (Last 5),
               destroyables = None, nesting = 1\<rparr>)"
    by simp
  from a b c h show ?thesis by simp
qed

subsection \<open>Cautious and trusting content\<close>

text \<open>
  Claim C2. While a simple, updatable or remote tracker is the current block, appending a
  plain string \<open>str\<close> as cautious content creates one text node with the string as its
  content, inserts it at the cursor and returns text content whose bounds are that single
  node; appending the same value as trusting content hands the string to \<open>insertHTMLBefore\<close>
  and returns the bounds that call gave, which the tracker receives through \<open>newBounds\<close>.
\<close>

theorem cautious_string_is_text_trusting_is_markup:
  assumes cur: "block b = Inr t" "tracker_at (trackers (env b)) t = Some (SimpleBlockTracker k s)"
  shows "\<exists>b1 b2 tr1.
     appendCautiousDynamicContent (StringValue str) b =
       Inr (DynamicContentWrapper
              (DynamicTextContent (SingleNodeBounds (element b) (next_node (tree (env b)))) str), b1) \<and>
     calls (env b1) = calls (env b) @
        [CreateTextNode str (next_node (tree (env b))),
         InsertBefore (element b) (next_node (tree (env b))) (nextSibling b)] \<and>
     tree (env b1) = insertBefore (element b) (next_node (tree (env b))) (nextSibling b)
                       (snd (createTextNode str (tree (env b)))) \<and>
     contents (tree (env b1)) (next_node (tree (env b))) = Some (TextData str) \<and>
     tracker_newNode (SimpleBlockTracker k s) (next_node (tree (env b))) = Inr tr1 \<and>
     trackers (env b1) = (trackers (env b))[t := tr1] \<and>
     appendTrustingDynamicContent (StringValue str) b =
       Inr (DynamicContentWrapper
              (DynamicTrustedHTMLContent
                 (fst (insertHTMLBefore (element b) (nextSibling b) str (tree (env b)))) str), b2) \<and>
     calls (env b2) = calls (env b) @ [InsertHTMLBefore (element b) (nextSibling b) str] \<and>
     tree (env b2) = snd (insertHTMLBefore (element b) (nextSibling b) str (tree (env b))) \<and>
     trackers (env b2) =
       (trackers (env b))
         [t := tracker_newBounds (SimpleBlockTracker k s)
                 (fst (insertHTMLBefore (element b) (nextSibling b) str (tree (env b))))]"
  using cur
  by (auto simp: appendCautiousDynamicContent_def appendTrustingDynamicContent_def appendText_def
      appendHTML_def createTextNode_def create_node_def didAppendNode_def didAppendBounds_def
      on_block_def single_def insertBefore_def Let_def split: prod.splits)

text \<open>
  The theorem for the string \<open><b>x</b>\<close> at the builder the constructor gives, with a parser
  that yields two nodes: one text node against bounds of two nodes.
\<close>

theorem cautious_string_is_text_trusting_is_markup_witness:
  "block example_builder = Inr 0 \<and>
   tracker_at (trackers (env example_builder)) 0 =
     Some (SimpleBlockTracker Simple
             \<lparr>parent = 0, first = None, last_t = None, destroyables = None, nesting = 0\<rparr>) \<and>
   map_sum id fst (appendCautiousDynamicContent (StringValue ''<b>x</b>'') example_builder) =
     Inr (DynamicContentWrapper (DynamicTextContent (SingleNodeBounds 0 1) ''<b>x</b>'')) \<and>
   map_sum id fst (appendTrustingDynamicContent (StringValue ''<b>x</b>'') example_builder) =
     Inr (DynamicContentWrapper
            (DynamicTrustedHTMLContent (ConcreteBounds 0 (Some 1) (Some 2)) ''<b>x</b>''))"
proof -
  have h: "block example_builder = Inr 0"
    "tracker_at (trackers (env example_builder)) 0 =
       Some (SimpleBlockTracker Simple
               \<lparr>parent = 0, first = None, last_t = None, destroyables = None, nesting = 0\<rparr>)"
    by (rule example_builder_facts)+
  have v: "fst (insertHTMLBefore 0 None ''<b>x</b>'' (tree (env example_builder))) =
             ConcreteBounds 0 (Some 1) (Some 2)"
    by code_simp
  from cautious_string_is_text_trusting_is_markup [OF h, of "''<b>x</b>''"] obtain b1 b2 where
    "appendCautiousDynamicContent (StringValue ''<b>x</b>'') example_builder =
       Inr (DynamicContentWrapper (DynamicTextContent (SingleNodeBounds 0 1) ''<b>x</b>''), b1)"
    "appendTrustingDynamicContent (StringValue ''<b>x</b>'') example_builder =
       Inr (DynamicContentWrapper
              (DynamicTrustedHTMLContent (ConcreteBounds 0 (Some 1) (Some 2)) ''<b>x</b>''), b2)"
    by (auto simp: example_builder_facts v)
  with h show ?thesis by simp
qed

subsection \<open>Reset of an updatable tracker\<close>

text \<open>
  Claim C3. For an updatable tracker whose first and last node can be read, \<open>reset\<close> hands
  every registered destroyable, in the order of registration (\<open>newDestroyable\<close> appends at
  the end of the list), to \<open>didDestroy\<close>, and only then clears the node range: the log grows
  by these calls followed by the one \<open>Clear\<close>.
  The tracker is left with \<open>first\<close>, \<open>last\<close> and the destroyables absent and depth 0, as a
  new tracker on the same parent. The value returned is the value \<open>clear\<close> returns; when the
  range from the first to the last node is a run of the parent's children, that is the
  sibling after the run (absent when the run is at the end), and the run is gone.
\<close>

theorem reset_destroys_then_clears:
  assumes upd: "tracker_at (trackers e) t = Some (SimpleBlockTracker Updatable s)"
    and f: "firstNode e (TrackerBounds t) = Inr f"
    and l: "lastNode e (TrackerBounds t) = Inr l"
  shows "\<exists>e'. reset t e = Inr (snd (clear_range (children (tree e) (parent s)) f l), e') \<and>
     clear (TrackerBounds t)
       (called (map DidDestroy (case destroyables s of None \<Rightarrow> [] | Some ds \<Rightarrow> ds)) e) =
       Inr (snd (clear_range (children (tree e) (parent s)) f l),
            e'\<lparr>trackers := trackers e\<rparr>) \<and>
     calls e' = calls e
        @ map DidDestroy (case destroyables s of None \<Rightarrow> [] | Some ds \<Rightarrow> ds)
        @ [Clear (parent s) f l] \<and>
     children (tree e') =
       (children (tree e))(parent s := fst (clear_range (children (tree e) (parent s)) f l)) \<and>
     trackers e' =
       (trackers e)[t := SimpleBlockTracker Updatable
                          (s\<lparr>first := None, last_t := None, destroyables := None, nesting := 0\<rparr>)] \<and>
     tracker_at (trackers e') t = Some (new_tracker Updatable (parent s)) \<and>
     tracker_newDestroyable (SimpleBlockTracker Updatable s) d =
       SimpleBlockTracker Updatable
         (s\<lparr>destroyables :=
              Some ((case destroyables s of None \<Rightarrow> [] | Some ds \<Rightarrow> ds) @ [d])\<rparr>) \<and>
     (\<forall>pre mid lst post.
        children (tree e) (parent s) = pre @ mid @ lst # post \<and>
        f = Some (hd (mid @ [lst])) \<and> l = Some lst \<and>
        hd (mid @ [lst]) \<notin> set pre \<and> lst \<notin> set mid \<longrightarrow>
        snd (clear_range (children (tree e) (parent s)) f l) =
          (case post of [] \<Rightarrow> None | m # ms \<Rightarrow> Some m) \<and>
        children (tree e') (parent s) = pre @ post)"
proof -
  let ?ds = "case destroyables s of None \<Rightarrow> [] | Some ds \<Rightarrow> ds"
  let ?e = "called (map DidDestroy ?ds) e"
  have p: "bounds_parentElement (trackers ?e) (TrackerBounds t) = Inr (parent s)"
    using upd by simp
  have c: "clear (TrackerBounds t) ?e =
     Inr (snd (clear_range (children (tree e) (parent s)) f l),
          called [Clear (parent s) f l]
            (?e\<lparr>tree := (tree ?e)\<lparr>children :=
                 (children (tree e))(parent s := fst (clear_range (children (tree e) (parent s)) f l))\<rparr>\<rparr>))"
    using clear_result [OF p, of f l] f l by simp
  have z: "\<lparr>parent = parent s, first = None, last_t = None, destroyables = None, nesting = 0\<rparr> =
            s\<lparr>first := None, last_t := None, destroyables := None, nesting := 0\<rparr>"
    by simp
  show ?thesis
    using upd c
    by (auto simp: reset_def called_def new_tracker_def tracker_at_def clear_range_run z
        split: if_splits)
qed

text \<open>
  The theorem at an updatable block with two destroyables and two text nodes, followed by a
  third text node: the reset returns that third node and leaves it the only child.
\<close>

theorem reset_destroys_then_clears_witness:
  "tracker_at (trackers (env example_updatable)) 1 =
     Some (SimpleBlockTracker Updatable
             \<lparr>parent = 0, first = Some (First 1), last_t = Some (Last 2),
                destroyables = Some [ExternalDestroyable 7, ExternalDestroyable 8],
                nesting = 0\<rparr>) \<and>
   firstNode (env example_updatable) (TrackerBounds 1) = Inr (Some 1) \<and>
   lastNode (env example_updatable) (TrackerBounds 1) = Inr (Some 2) \<and>
   children (tree (env example_updatable)) 0 = [1, 2, 3] \<and>
   (\<exists>e'. reset 1 (env example_updatable) = Inr (Some 3, e') \<and>
      children (tree e') 0 = [3] \<and>
      calls e' = calls (env example_updatable) @
         [DidDestroy (ExternalDestroyable 7), DidDestroy (ExternalDestroyable 8),
          Clear 0 (Some 1) (Some 2)] \<and>
      tracker_at (trackers e') 1 = Some (new_tracker Updatable 0))"
proof -
  let ?s = "\<lparr>parent = 0, first = Some (First 1), last_t = Some (Last 2),
             destroyables = Some [ExternalDestroyable 7, ExternalDestroyable 8],
             nesting = 0\<rparr>"
  have h: "tracker_at (trackers (env example_updatable)) 1 = Some (SimpleBlockTracker Updatable ?s)"
    "firstNode (env example_updatable) (TrackerBounds 1) = Inr (Some 1)"
    "lastNode (env example_updatable) (TrackerBounds 1) = Inr (Some 2)"
    by (rule example_updatable_facts)+
  have ch: "children (tree (env example_updatable)) 0 = [1, 2, 3]"
    by (rule example_updatable_facts)
  from reset_destroys_then_clears [OF h] obtain e' where
    r: "reset 1 (env example_updatable) =
          Inr (snd (clear_range (children (tree (env example_updatable)) (parent ?s))
                      (Some 1) (Some 2)), e')"
    and c: "calls e' = calls (env example_updatable)
              @ map DidDestroy (case destroyables ?s of None \<Rightarrow> [] | Some ds \<Rightarrow> ds)
              @ [Clear (parent ?s) (Some 1) (Some 2)]"
    and t: "tracker_at (trackers e') 1 = Some (new_tracker Updatable (parent ?s))"
    and q: "\<forall>pre mid lst post.
        children (tree (env example_updatable)) (parent ?s) = pre @ mid @ lst # post \<and>
        Some 1 = Some (hd (mid @ [lst])) \<and> Some 2 = Some lst \<and>
        hd (mid @ [lst]) \<notin> set pre \<and> lst \<notin> set mid \<longrightarrow>
        snd (clear_range (children (tree (env example_updatable)) (parent ?s)) (Some 1) (Some 2)) =
          (case post of [] \<Rightarrow> None | m # ms \<Rightarrow> Some m) \<and>
        children (tree e') (parent ?s) = pre @ post"
    by blast
  from q [rule_format, of "[]" "[1]" 2 "[3]"] ch
  have "snd (clear_range (children (tree (env example_updatable)) (parent ?s)) (Some 1) (Some 2)) =
          Some 3 \<and> children (tree e') 0 = [3]"
    by simp
  with r c t h ch show ?thesis by simp
qed

subsection \<open>Finalizing an empty block\<close>

text \<open>
  Claim C4, as the code has it. When \<open>finalize\<close> is called on the simple, updatable or
  remote tracker that is the builder's current block (as \<open>popBlock\<close> calls it) and \<open>first\<close>
  is absent, exactly one comment with the empty text is created and inserted at the cursor.
  With the tracker at depth 0, where every element opened in the block has been closed, the
  comment is both \<open>first\<close> and \<open>last\<close>; at any other depth \<open>newNode\<close> ignores the comment
  and the tracker is as it was, \<open>first\<close> and \<open>last\<close> still absent. When \<open>first\<close> is present,
  \<open>finalize\<close> leaves the builder as it is.
\<close>

theorem finalize_empty_appends_comment:
  assumes cur: "block b = Inr t" "tracker_at (trackers (env b)) t = Some (SimpleBlockTracker k s)"
  shows "(first s = None \<longrightarrow>
      (\<exists>b' tr'. finalize t b = Inr b' \<and>
         calls (env b') = calls (env b) @
            [CreateComment [] (next_node (tree (env b))),
             InsertBefore (element b) (next_node (tree (env b))) (nextSibling b)] \<and>
         tree (env b') = insertBefore (element b) (next_node (tree (env b))) (nextSibling b)
                           (snd (createComment [] (tree (env b)))) \<and>
         contents (tree (env b')) (next_node (tree (env b))) = Some (CommentData []) \<and>
         tracker_at (trackers (env b')) t = Some tr' \<and>
         (nesting s = 0 \<longrightarrow>
            tr' = SimpleBlockTracker k
                    (s\<lparr>first := Some (First (next_node (tree (env b)))),
                       last_t := Some (Last (next_node (tree (env b))))\<rparr>)) \<and>
         (nesting s \<noteq> 0 \<longrightarrow>
            tr' = SimpleBlockTracker k s \<and> trackers (env b') = trackers (env b)))) \<and>
    (first s \<noteq> None \<longrightarrow> finalize t b = Inr b)"
  using cur
  by (auto simp: finalize_def appendComment_def createComment_def create_node_def didAppendNode_def
      on_block_def insertBefore_def tracker_at_update tracker_at_update_same split: prod.splits)

text \<open>
  The theorem at the builder the constructor gives, whose block is empty at depth 0, at the
  builder whose block holds a \<open>div\<close>, and at a builder whose empty block is at depth -1
  after a \<open>closeElement\<close> notification that no \<open>openElement\<close> preceded.
\<close>

theorem finalize_empty_appends_comment_witness:
  "block example_builder = Inr 0 \<and>
   tracker_at (trackers (env example_builder)) 0 =
     Some (SimpleBlockTracker Simple
             \<lparr>parent = 0, first = None, last_t = None, destroyables = None, nesting = 0\<rparr>) \<and>
   (\<exists>b'. finalize 0 example_builder = Inr b' \<and>
      calls (env b') = [CreateComment [] 1, InsertBefore 0 1 None] \<and>
      tracker_at (trackers (env b')) 0 =
        Some (SimpleBlockTracker Simple
                \<lparr>parent = 0, first = Some (First 1), last_t = Some (Last 1),
                   destroyables = None, nesting = 0\<rparr>)) \<and>
   finalize 0 example_nested = Inr example_nested \<and>
   block example_unbalanced = Inr 0 \<and>
   tracker_at (trackers (env example_unbalanced)) 0 =
     Some (SimpleBlockTracker Simple
             \<lparr>parent = 0, first = None, last_t = None, destroyables = None, nesting = - 1\<rparr>) \<and>
   (\<exists>b'. finalize 0 example_unbalanced = Inr b' \<and>
      calls (env b') = [CreateComment [] 1, InsertBefore 0 1 None] \<and>
      tracker_at (trackers (env b')) 0 =
        Some (SimpleBlockTracker Simple
                \<lparr>parent = 0, first = None, last_t = None, destroyables = None,
                   nesting = - 1\<rparr>))"
proof -
  let ?z = "\<lparr>parent = 0, first = None, last_t = None, destroyables = None, nesting = 0\<rparr>"
  let ?s = "\<lparr>parent = 0, first = Some (First 1), last_t = Some (Last 1),
             destroyables = None, nesting = 1\<rparr>"
  let ?u = "\<lparr>parent = 0, first = None, last_t = None, destroyables = None, nesting = - 1\<rparr>"
  have h: "block example_builder = Inr 0"
    "tracker_at (trackers (env example_builder)) 0 = Some (SimpleBlockTracker Simple ?z)"
    by (rule example_builder_facts)+
  have g: "block example_nested = Inr 0"
    "tracker_at (trackers (env example_nested)) 0 = Some (SimpleBlockTracker Simple ?s)"
    by (rule example_nested_facts)+
  have u: "block example_unbalanced = Inr 0"
    "tracker_at (trackers (env example_unbalanced)) 0 = Some (SimpleBlockTracker Simple ?u)"
    by (rule example_unbalanced_facts)+
  from finalize_empty_appends_comment [OF h]
  have a: "\<exists>b'. finalize 0 example_builder = Inr b' \<and>
      calls (env b') = [CreateComment [] 1, InsertBefore 0 1 None] \<and>
      tracker_at (trackers (env b')) 0 =
        Some (SimpleBlockTracker Simple
                \<lparr>parent = 0, first = Some (First 1), last_t = Some (Last 1),
                   destroyables = None, nesting = 0\<rparr>)"
    by (auto simp: example_builder_facts)
  from finalize_empty_appends_comment [OF g]
  have b: "finalize 0 example_nested = Inr example_nested" by simp
  from finalize_empty_appends_comment [OF u]
  have c: "\<exists>b'. finalize 0 example_unbalanced = Inr b' \<and>
      calls (env b') = [CreateComment [] 1, InsertBefore 0 1 None] \<and>
      tracker_at (trackers (env b')) 0 = Some (SimpleBlockTracker Simple ?u)"
    by (auto simp: example_unbalanced_facts)
  from a b c h u show ?thesis by simp
qed

text \<open>
  Against the claim as stated, that the comment becomes the bounds of every tracker whose
  \<open>first\<close> is absent when \<open>finalize\<close> is called: after \<open>willCloseElement\<close> the empty block of
  the constructor is at depth -1; \<open>finalize\<close>, and \<open>popBlock\<close> through it, return with the
  comment created and inserted, and \<open>first\<close> and \<open>last\<close> of the tracker still absent.
\<close>

theorem finalize_at_nonzero_depth_leaves_bounds_absent:
  "run [WillCloseElement] example_builder = Inr example_unbalanced \<and>
   block example_unbalanced = Inr 0 \<and>
   tracker_at (trackers (env example_unbalanced)) 0 =
     Some (SimpleBlockTracker Simple
             \<lparr>parent = 0, first = None, last_t = None, destroyables = None, nesting = - 1\<rparr>) \<and>
   map_sum id (calls \<circ> env) (finalize 0 example_unbalanced) =
     Inr [CreateComment [] 1, InsertBefore 0 1 None] \<and>
   map_sum id (trackers \<circ> env) (finalize 0 example_unbalanced) =
     Inr [SimpleBlockTracker Simple
            \<lparr>parent = 0, first = None, last_t = None, destroyables = None, nesting = - 1\<rparr>] \<and>
   map_sum id fst (popBlock example_unbalanced) = Inr 0 \<and>
   map_sum id (trackers \<circ> env)
     (run [WillCloseElement, PopBlock] example_builder) =
     Inr [SimpleBlockTracker Simple
            \<lparr>parent = 0, first = None, last_t = None, destroyables = None, nesting = - 1\<rparr>] \<and>
   children (tree (env (projr (run [WillCloseElement, PopBlock] example_builder)))) 0 = [1]"
proof -
  have "\<not> isl (run [WillCloseElement] example_builder)" by code_simp
  then have "run [WillCloseElement] example_builder = Inr example_unbalanced"
    unfolding example_unbalanced_def by (rule Inr_projr)
  moreover have
   "block example_unbalanced = Inr 0 \<and>
    tracker_at (trackers (env example_unbalanced)) 0 =
     Some (SimpleBlockTracker Simple
             \<lparr>parent = 0, first = None, last_t = None, destroyables = None, nesting = - 1\<rparr>) \<and>
    map_sum id (calls \<circ> env) (finalize 0 example_unbalanced) =
     Inr [CreateComment [] 1, InsertBefore 0 1 None] \<and>
    map_sum id (trackers \<circ> env) (finalize 0 example_unbalanced) =
     Inr [SimpleBlockTracker Simple
            \<lparr>parent = 0, first = None, last_t = None, destroyables = None, nesting = - 1\<rparr>] \<and>
    map_sum id fst (popBlock example_unbalanced) = Inr 0 \<and>
    map_sum id (trackers \<circ> env)
     (run [WillCloseElement, PopBlock] example_builder) =
     Inr [SimpleBlockTracker Simple
            \<lparr>parent = 0, first = None, last_t = None, destroyables = None, nesting = - 1\<rparr>] \<and>
    children (tree (env (projr (run [WillCloseElement, PopBlock] example_builder)))) 0 = [1]"
    by code_simp
  ultimately show ?thesis by simp
qed

subsection \<open>Teardown of a remote tracker\<close>




subsection \<open>Opening an element while another is under construction\<close>

text \<open>
  Claim C6, as the code has it. \<open>openElement\<close> has no check of \<open>constructing\<close> and always
  returns: it creates a detached element, which is the new \<open>constructing\<close>, and sets the
  operations; an element that was under construction is dropped without being inserted.
  The stacks, the cursor and the trackers are as before.
\<close>

theorem openElement_always_proceeds:
  "\<exists>b'. openElement tag ops b = Inr (next_node (tree (env b)), b') \<and>
        constructing b' = Some (next_node (tree (env b))) \<and>
        operations b' = Some (case ops of None \<Rightarrow> defaultOperations b | Some x \<Rightarrow> x) \<and>
        calls (env b') = calls (env b) @ [CreateElement tag (element b) (next_node (tree (env b)))] \<and>
        children (tree (env b')) = children (tree (env b)) \<and>
        trackers (env b') = trackers (env b) \<and>
        element b' = element b \<and> nextSibling b' = nextSibling b \<and>
        elementStack b' = elementStack b \<and> nextSiblingStack b' = nextSiblingStack b \<and>
        blockStack b' = blockStack b"
  by (simp add: openElement_def createElement_def create_node_def Let_def)

text \<open>
  Against the claim as stated, that \<open>openElement\<close> fails while an element is under
  construction: after \<open>openElement('div')\<close> the builder is constructing node 1, and
  \<open>openElement('span')\<close> returns node 2, which replaces it.
\<close>

theorem openElement_while_constructing_returns:
  "constructing example_constructing = Some 1 \<and>
   \<not> isl (openElement ''span'' None example_constructing) \<and>
   map_sum id fst (openElement ''span'' None example_constructing) = Inr 2 \<and>
   constructing (snd (projr (openElement ''span'' None example_constructing))) = Some 2 \<and>
   children (tree (env (snd (projr (openElement ''span'' None example_constructing))))) 0 = []"
  by code_simp

subsection \<open>What a new block tells the enclosing tracker\<close>

text \<open>
  Claim C7, as the code has it. With a tracker \<open>cur\<close> current at address \<open>c\<close>,
  \<open>pushRemoteElement\<close> calls only \<open>newDestroyable\<close> of \<open>cur\<close> with the new remote tracker,
  while \<open>pushSimpleBlock\<close>, \<open>pushUpdatableBlock\<close> and \<open>pushBlockList\<close> call \<open>newDestroyable\<close>
  and then \<open>newBounds\<close> with the new tracker. On a simple, updatable or remote \<open>cur\<close> the
  first call appends the new tracker to the destroyables and changes no other field, so
  \<open>first\<close> and \<open>last\<close> stay; on a block-list \<open>cur\<close> neither call records anything.
\<close>

theorem push_reports_to_enclosing_tracker:
  assumes cur: "current (blockStack b) = Some c" "tracker_at (trackers (env b)) c = Some cur"
  shows "(\<exists>b'. pushRemoteElement e n b = Inr b' \<and>
        trackers (env b') =
          (trackers (env b) @ [new_tracker Remote e])
            [c := tracker_newDestroyable cur (TrackerDestroyable (length (trackers (env b))))] \<and>
        blockStack b' = length (trackers (env b)) # blockStack b) \<and>
    (\<exists>b'. pushSimpleBlock b = Inr (length (trackers (env b)), b') \<and>
        trackers (env b') =
          (trackers (env b) @ [new_tracker Simple (element b)])
            [c := tracker_newBounds
                    (tracker_newDestroyable cur (TrackerDestroyable (length (trackers (env b)))))
                    (TrackerBounds (length (trackers (env b))))] \<and>
        blockStack b' = length (trackers (env b)) # blockStack b) \<and>
    (\<exists>b'. pushUpdatableBlock b = Inr (length (trackers (env b)), b') \<and>
        trackers (env b') =
          (trackers (env b) @ [new_tracker Updatable (element b)])
            [c := tracker_newBounds
                    (tracker_newDestroyable cur (TrackerDestroyable (length (trackers (env b)))))
                    (TrackerBounds (length (trackers (env b))))] \<and>
        blockStack b' = length (trackers (env b)) # blockStack b) \<and>
    (\<exists>b'. pushBlockList list b = Inr (length (trackers (env b)), b') \<and>
        trackers (env b') =
          (trackers (env b) @ [BlockListTracker (element b) list])
            [c := tracker_newBounds
                    (tracker_newDestroyable cur (TrackerDestroyable (length (trackers (env b)))))
                    (TrackerBounds (length (trackers (env b))))] \<and>
        blockStack b' = length (trackers (env b)) # blockStack b) \<and>
    (\<forall>kd s. cur = SimpleBlockTracker kd s \<longrightarrow>
        tracker_newDestroyable cur (TrackerDestroyable (length (trackers (env b)))) =
          SimpleBlockTracker kd
            (s\<lparr>destroyables :=
                 Some ((case destroyables s of None \<Rightarrow> [] | Some ds \<Rightarrow> ds)
                       @ [TrackerDestroyable (length (trackers (env b)))])\<rparr>)) \<and>
    (\<forall>p bl d bs. cur = BlockListTracker p bl \<longrightarrow>
        tracker_newDestroyable cur d = cur \<and> tracker_newBounds cur bs = cur)"
  using cur
  by (auto simp: pushRemoteElement_def pushSimpleBlock_def pushUpdatableBlock_def pushBlockList_def
      alloc_def pushBlockTracker_def pushElement_def tracker_at_def nth_append Let_def
      split: if_splits)

text \<open>
  The theorem at the builder the constructor gives, whose current block is a simple tracker,
  and at a builder whose current block is a block list.
\<close>

theorem push_reports_to_enclosing_tracker_witness:
  "current (blockStack example_builder) = Some 0 \<and>
   tracker_at (trackers (env example_builder)) 0 =
     Some (SimpleBlockTracker Simple
             \<lparr>parent = 0, first = None, last_t = None, destroyables = None, nesting = 0\<rparr>) \<and>
   (\<exists>b'. pushRemoteElement 10 None example_builder = Inr b' \<and>
      trackers (env b') =
        [SimpleBlockTracker Simple
           \<lparr>parent = 0, first = None, last_t = None,
              destroyables = Some [TrackerDestroyable 1], nesting = 0\<rparr>,
         SimpleBlockTracker Remote
           \<lparr>parent = 10, first = None, last_t = None, destroyables = None, nesting = 0\<rparr>]) \<and>
   (\<exists>b'. pushSimpleBlock example_builder = Inr (1, b') \<and>
      trackers (env b') =
        [SimpleBlockTracker Simple
           \<lparr>parent = 0, first = Some (FirstBounds (TrackerBounds 1)),
              last_t = Some (LastBounds (TrackerBounds 1)),
              destroyables = Some [TrackerDestroyable 1], nesting = 0\<rparr>,
         SimpleBlockTracker Simple
           \<lparr>parent = 0, first = None, last_t = None, destroyables = None, nesting = 0\<rparr>]) \<and>
   current (blockStack example_list) = Some 1 \<and>
   tracker_at (trackers (env example_list)) 1 =
     Some (BlockListTracker 0 [\<lparr>ln_id = 7, ln_bounds = ConcreteBounds 0 None None\<rparr>]) \<and>
   (\<exists>b'. pushSimpleBlock example_list = Inr (2, b') \<and>
      tracker_at (trackers (env b')) 1 =
        Some (BlockListTracker 0 [\<lparr>ln_id = 7, ln_bounds = ConcreteBounds 0 None None\<rparr>]))"
proof -
  let ?z = "\<lparr>parent = 0, first = None, last_t = None, destroyables = None, nesting = 0\<rparr>"
  let ?bl = "BlockListTracker 0 [\<lparr>ln_id = 7, ln_bounds = ConcreteBounds 0 None None\<rparr>]"
  have h: "current (blockStack example_builder) = Some 0"
    "tracker_at (trackers (env example_builder)) 0 = Some (SimpleBlockTracker Simple ?z)"
    by (rule example_builder_facts)+
  have g: "current (blockStack example_list) = Some 1"
    "tracker_at (trackers (env example_list)) 1 = Some ?bl"
    by (rule example_list_facts)+
  have ts: "trackers (env example_builder) = [SimpleBlockTracker Simple ?z]"
    by code_simp
  have tl: "trackers (env example_list) =
      [SimpleBlockTracker Simple
         \<lparr>parent = 0, first = Some (FirstBounds (TrackerBounds 1)),
            last_t = Some (LastBounds (TrackerBounds 1)),
            destroyables = Some [TrackerDestroyable 1], nesting = 0\<rparr>, ?bl]"
    by code_simp
  have el: "element example_builder = 0" by (rule example_builder_facts)
  from push_reports_to_enclosing_tracker [OF h, of 10 None "[]"]
  have a: "(\<exists>b'. pushRemoteElement 10 None example_builder = Inr b' \<and>
      trackers (env b') =
        [SimpleBlockTracker Simple
           \<lparr>parent = 0, first = None, last_t = None,
              destroyables = Some [TrackerDestroyable 1], nesting = 0\<rparr>,
         SimpleBlockTracker Remote
           \<lparr>parent = 10, first = None, last_t = None, destroyables = None, nesting = 0\<rparr>]) \<and>
     (\<exists>b'. pushSimpleBlock example_builder = Inr (1, b') \<and>
      trackers (env b') =
        [SimpleBlockTracker Simple
           \<lparr>parent = 0, first = Some (FirstBounds (TrackerBounds 1)),
              last_t = Some (LastBounds (TrackerBounds 1)),
              destroyables = Some [TrackerDestroyable 1], nesting = 0\<rparr>,
         SimpleBlockTracker Simple
           \<lparr>parent = 0, first = None, last_t = None, destroyables = None, nesting = 0\<rparr>])"
    by (simp add: ts el new_tracker_def) blast
  from push_reports_to_enclosing_tracker [OF g, of 10 None "[]"]
  have b: "\<exists>b'. pushSimpleBlock example_list = Inr (2, b') \<and>
      tracker_at (trackers (env b')) 1 = Some ?bl"
    by (auto simp: tl tracker_at_def)
  from a b h g show ?thesis by simp
qed

text \<open>
  Against the claim as stated, for every \<open>pushRemoteElement\<close> with an enclosing tracker: under
  a block list the new remote tracker (address 2) is in no list of destroyables, and the
  store holds the block-list tracker as it was.
\<close>

theorem pushRemoteElement_under_block_list:
  "current (blockStack example_list) = Some 1 \<and>
   map_sum id (trackers \<circ> env) (pushRemoteElement 10 None example_list) =
     Inr [SimpleBlockTracker Simple
            \<lparr>parent = 0, first = Some (FirstBounds (TrackerBounds 1)),
               last_t = Some (LastBounds (TrackerBounds 1)),
               destroyables = Some [TrackerDestroyable 1], nesting = 0\<rparr>,
          BlockListTracker 0 [\<lparr>ln_id = 7, ln_bounds = ConcreteBounds 0 None None\<rparr>],
          SimpleBlockTracker Remote
            \<lparr>parent = 10, first = None, last_t = None, destroyables = None, nesting = 0\<rparr>] \<and>
   map_sum id calls
     (destroy 1 (env (projr (pushRemoteElement 10 None example_list)))) =
     Inr [Destroy (ExternalDestroyable 7)]"
  by code_simp

subsection \<open>A block list rejects nodes and elements\<close>

text \<open>
  Claim C8. \<open>openElement\<close>, \<open>closeElement\<close> and \<open>newNode\<close> of a block-list tracker fail with
  an assertion; so, while a block-list tracker is the current block, do the operations of
  the builder that reach them: appending a text, a comment or a node, flushing an element
  under construction, and closing an element.
\<close>

theorem block_list_rejects_direct_mutation:
  "tracker_openElement (BlockListTracker p bl) e =
     Inl (AssertFailed ''Cannot openElement directly inside a block list'') \<and>
   tracker_closeElement (BlockListTracker p bl) =
     Inl (AssertFailed ''Cannot closeElement directly inside a block list'') \<and>
   tracker_newNode (BlockListTracker p bl) n =
     Inl (AssertFailed ''Cannot create a new node directly inside a block list'') \<and>
   (block b = Inr t \<and> tracker_at (trackers (env b)) t = Some (BlockListTracker p bl) \<longrightarrow>
      didAppendNode n b = Inl (AssertFailed ''Cannot create a new node directly inside a block list'') \<and>
      appendText str b = Inl (AssertFailed ''Cannot create a new node directly inside a block list'') \<and>
      appendComment str b = Inl (AssertFailed ''Cannot create a new node directly inside a block list'') \<and>
      appendNode n b = Inl (AssertFailed ''Cannot create a new node directly inside a block list'') \<and>
      didOpenElement e b = Inl (AssertFailed ''Cannot openElement directly inside a block list'') \<and>
      (constructing b \<noteq> None \<longrightarrow>
         flushElement b = Inl (AssertFailed ''Cannot openElement directly inside a block list'')) \<and>
      willCloseElement b = Inl (AssertFailed ''Cannot closeElement directly inside a block list'') \<and>
      closeElement b = Inl (AssertFailed ''Cannot closeElement directly inside a block list''))"
proof (intro conjI impI)
  assume cur: "block b = Inr t \<and> tracker_at (trackers (env b)) t = Some (BlockListTracker p bl)"
  then show "didAppendNode n b =
      Inl (AssertFailed ''Cannot create a new node directly inside a block list'')"
    by (simp add: didAppendNode_def on_block_def)
  from cur show "appendText str b =
      Inl (AssertFailed ''Cannot create a new node directly inside a block list'')"
    by (simp add: appendText_def didAppendNode_def on_block_def split: prod.splits)
  from cur show "appendComment str b =
      Inl (AssertFailed ''Cannot create a new node directly inside a block list'')"
    by (simp add: appendComment_def didAppendNode_def on_block_def split: prod.splits)
  from cur show "appendNode n b =
      Inl (AssertFailed ''Cannot create a new node directly inside a block list'')"
    by (simp add: appendNode_def didAppendNode_def on_block_def)
  from cur show "didOpenElement e b =
      Inl (AssertFailed ''Cannot openElement directly inside a block list'')"
    by (simp add: didOpenElement_def on_block_def)
  from cur show "willCloseElement b =
      Inl (AssertFailed ''Cannot closeElement directly inside a block list'')"
    by (simp add: willCloseElement_def on_block_def)
  from cur show "closeElement b =
      Inl (AssertFailed ''Cannot closeElement directly inside a block list'')"
    by (simp add: closeElement_def willCloseElement_def on_block_def)
next
  assume cur: "block b = Inr t \<and> tracker_at (trackers (env b)) t = Some (BlockListTracker p bl)"
    and c: "constructing b \<noteq> None"
  then show "flushElement b =
      Inl (AssertFailed ''Cannot openElement directly inside a block list'')"
    by (auto simp: flushElement_def expect_def didOpenElement_def on_block_def Let_def)
qed simp_all

text \<open>
  The theorem at a builder whose current block is a block list and which is constructing an
  element.
\<close>

theorem block_list_rejects_direct_mutation_witness:
  "block example_list_constructing = Inr 1 \<and>
   tracker_at (trackers (env example_list_constructing)) 1 =
     Some (BlockListTracker 0 [\<lparr>ln_id = 7, ln_bounds = ConcreteBounds 0 None None\<rparr>]) \<and>
   constructing example_list_constructing \<noteq> None \<and>
   appendText ''hi'' example_list_constructing =
     Inl (AssertFailed ''Cannot create a new node directly inside a block list'') \<and>
   appendNode 5 example_list_constructing =
     Inl (AssertFailed ''Cannot create a new node directly inside a block list'') \<and>
   flushElement example_list_constructing =
     Inl (AssertFailed ''Cannot openElement directly inside a block list'') \<and>
   closeElement example_list_constructing =
     Inl (AssertFailed ''Cannot closeElement directly inside a block list'')"
proof -
  have h: "block example_list_constructing = Inr 1"
    "tracker_at (trackers (env example_list_constructing)) 1 =
       Some (BlockListTracker 0 [\<lparr>ln_id = 7, ln_bounds = ConcreteBounds 0 None None\<rparr>])"
    by (rule example_list_constructing_facts)+
  have c: "constructing example_list_constructing \<noteq> None"
    by (simp add: example_list_constructing_facts)
  from block_list_rejects_direct_mutation
         [where b = example_list_constructing and t = 1 and p = 0
            and bl = "[\<lparr>ln_id = 7, ln_bounds = ConcreteBounds 0 None None\<rparr>]"
            and n = 5 and str = "''hi''"] h c
  show ?thesis by simp
qed

subsection \<open>The element stack and the next-sibling stack\<close>

text \<open>
  Claim C9. After the constructor (or \<open>resume\<close>) and any sequence of operations none of
  which throws (so none pops past the base frame), the element stack and the next-sibling
  stack have the same length; \<open>pushElement\<close> pushes on both, and \<open>popElement\<close> pops both.
  Every point of a run is the end of such a sequence.
\<close>

theorem element_and_sibling_stacks_aligned:
  assumes "new_builder e p n = Inr b0 \<or> resume e t n = Inr b0" and "run xs b0 = Inr b"
  shows "length (elementStack b) = length (nextSiblingStack b) \<and>
    elementStack (pushElement x y b) = x # elementStack b \<and>
    nextSiblingStack (pushElement x y b) = y # nextSiblingStack b \<and>
    (\<forall>r b'. popElement b = Inr (r, b') \<longrightarrow>
       elementStack b' = tl (elementStack b) \<and> nextSiblingStack b' = tl (nextSiblingStack b) \<and>
       length (elementStack b') = length (nextSiblingStack b'))"
proof -
  from assms have a: "stacks_aligned b"
    by (blast intro: run_aligned new_builder_aligned resume_aligned)
  then have "\<forall>r b'. popElement b = Inr (r, b') \<longrightarrow>
       elementStack b' = tl (elementStack b) \<and> nextSiblingStack b' = tl (nextSiblingStack b) \<and>
       length (elementStack b') = length (nextSiblingStack b')"
    by (auto simp: stacks_aligned_def dest!: popElement_stacks)
  with a show ?thesis by (simp add: stacks_aligned_def)
qed

text \<open>
  The theorem after a \<open>div\<close> was opened, filled and closed, and, for the pop, inside the
  open \<open>div\<close>.
\<close>

theorem element_and_sibling_stacks_aligned_witness:
  "new_builder example_env 0 None = Inr example_builder \<and>
   run [OpenElement ''div'' None, FlushElement, AppendText ''hi'', CloseElement] example_builder =
     Inr example_flow \<and>
   length (elementStack example_flow) = length (nextSiblingStack example_flow) \<and>
   run [OpenElement ''div'' None, FlushElement] example_builder = Inr example_nested \<and>
   length (elementStack example_nested) = length (nextSiblingStack example_nested) \<and>
   popElement example_nested = Inr (projr (popElement example_nested)) \<and>
   length (elementStack (snd (projr (popElement example_nested)))) =
     length (nextSiblingStack (snd (projr (popElement example_nested))))"
proof -
  have h: "new_builder example_env 0 None = Inr example_builder"
    by (rule example_builder_facts)
  have r1: "run [OpenElement ''div'' None, FlushElement, AppendText ''hi'', CloseElement]
              example_builder = Inr example_flow"
    by (rule example_flow_facts)
  have r2: "run [OpenElement ''div'' None, FlushElement] example_builder = Inr example_nested"
    by (rule example_nested_facts)
  have pop: "popElement example_nested =
               Inr (fst (projr (popElement example_nested)), snd (projr (popElement example_nested)))"
    using Inr_projr [OF example_nested_facts(6)] by simp
  from element_and_sibling_stacks_aligned [OF disjI1 [OF h] r1]
  have a: "length (elementStack example_flow) = length (nextSiblingStack example_flow)"
    by simp
  from element_and_sibling_stacks_aligned [OF disjI1 [OF h] r2] pop
  have b: "length (elementStack example_nested) = length (nextSiblingStack example_nested) \<and>
     length (elementStack (snd (projr (popElement example_nested)))) =
       length (nextSiblingStack (snd (projr (popElement example_nested))))"
    by blast
  from a b h r1 r2 pop show ?thesis by simp
qed

subsection \<open>What a block list does with bounds and destroyables\<close>

text \<open>
  Claim C10, as the code has it. \<open>newBounds\<close> and \<open>newDestroyable\<close> of a block-list tracker
  return the tracker as it was, and while it is the current block \<open>didAddDestroyable\<close> and
  \<open>didAppendBounds\<close> leave the whole builder, store included, as it was. Its \<open>destroy\<close> calls
  \<open>destroy\<close> on the members of its list, whatever was registered: a destroyable is called
  exactly when it is a member of the list.
\<close>

theorem block_list_discards_registrations:
  "tracker_newBounds (BlockListTracker p bl) bs = BlockListTracker p bl \<and>
   tracker_newDestroyable (BlockListTracker p bl) d = BlockListTracker p bl \<and>
   (block b = Inr t \<and> tracker_at (trackers (env b)) t = Some (BlockListTracker p bl) \<longrightarrow>
      didAddDestroyable d b = Inr b \<and>
      didAppendBounds bs b = Inr (bs, b) \<and>
      destroy t (env b) =
        Inr (called (map (\<lambda>x. Destroy (ExternalDestroyable (ln_id x))) bl) (env b)) \<and>
      (Destroy d \<in> set (map (\<lambda>x. Destroy (ExternalDestroyable (ln_id x))) bl) \<longleftrightarrow>
         d \<in> ExternalDestroyable ` ln_id ` set bl))"
proof (intro conjI impI)
  assume cur: "block b = Inr t \<and> tracker_at (trackers (env b)) t = Some (BlockListTracker p bl)"
  then show "didAddDestroyable d b = Inr b"
    by (simp add: didAddDestroyable_def
        on_block_unchanged [where t = t and tr = "BlockListTracker p bl"])
  from cur show "didAppendBounds bs b = Inr (bs, b)"
    by (simp add: didAppendBounds_def
        on_block_unchanged [where t = t and tr = "BlockListTracker p bl"])
  from cur show "destroy t (env b) =
        Inr (called (map (\<lambda>x. Destroy (ExternalDestroyable (ln_id x))) bl) (env b))"
    by (simp add: destroy_def)
  show "(Destroy d \<in> set (map (\<lambda>x. Destroy (ExternalDestroyable (ln_id x))) bl) \<longleftrightarrow>
         d \<in> ExternalDestroyable ` ln_id ` set bl)"
    by auto
qed simp_all

text \<open>
  The theorem at a builder whose current block is a block list with the one member 7: the
  destroyable 9 is dropped and never called.
\<close>

theorem block_list_discards_registrations_witness:
  "block example_list = Inr 1 \<and>
   tracker_at (trackers (env example_list)) 1 =
     Some (BlockListTracker 0 [\<lparr>ln_id = 7, ln_bounds = ConcreteBounds 0 None None\<rparr>]) \<and>
   didAddDestroyable (ExternalDestroyable 9) example_list = Inr example_list \<and>
   didAppendBounds (ConcreteBounds 0 None None) example_list =
     Inr (ConcreteBounds 0 None None, example_list) \<and>
   destroy 1 (env example_list) =
     Inr (called [Destroy (ExternalDestroyable 7)] (env example_list)) \<and>
   Destroy (ExternalDestroyable 9) \<notin> set [Destroy (ExternalDestroyable 7)]"
proof -
  have h: "block example_list = Inr 1"
    "tracker_at (trackers (env example_list)) 1 =
       Some (BlockListTracker 0 [\<lparr>ln_id = 7, ln_bounds = ConcreteBounds 0 None None\<rparr>])"
    by (rule example_list_facts)+
  from block_list_discards_registrations
         [where b = example_list and t = 1 and p = 0
            and bl = "[\<lparr>ln_id = 7, ln_bounds = ConcreteBounds 0 None None\<rparr>]"
            and d = "ExternalDestroyable 9" and bs = "ConcreteBounds 0 None None"] h
  show ?thesis by simp
qed

text \<open>
  Against the claim as stated, that a destroyable registered while a block list is current
  is never called by the tracker's \<open>destroy\<close>: the destroyable 7 is registered, the store is
  as before, and \<open>destroy\<close> of the block list calls it, as it is a member of the list.
\<close>

theorem block_list_destroys_registered_member:
  "block example_list = Inr 1 \<and>
   map_sum id (trackers \<circ> env) (didAddDestroyable (ExternalDestroyable 7) example_list) =
     Inr (trackers (env example_list)) \<and>
   map_sum id calls
     (destroy 1 (env (projr (didAddDestroyable (ExternalDestroyable 7) example_list)))) =
     Inr [Destroy (ExternalDestroyable 7)]"
  by code_simp

end
